theory Spec2Isabelle
  imports Complex_Main "HOL-Library.Sublist" "HOL-Library.Multiset"
begin

section \<open>JavaScript values used by the catalogue\<close>

text \<open>
  Strings are lists of characters; every \<^typ>\<open>char\<close> stands for one code unit below 256.
  Numbers that the program obtains from \<open>parseInt\<close> are integers or \<open>NaN\<close>: the type
  \<open>num\<close> is \<^typ>\<open>int option\<close> with \<^term>\<open>None\<close> for \<open>NaN\<close>. Integers are unbounded
  here; the program's doubles agree with them below \<open>2^53\<close>.
\<close>

type_synonym num = "int option"

definition isWhiteSpace :: "char \<Rightarrow> bool" where
  "isWhiteSpace c = (of_char c \<in> {9, 10, 11, 12, 13, 32, 160 :: nat})"

definition trim :: "string \<Rightarrow> string" where
  "trim s = rev (dropWhile isWhiteSpace (rev (dropWhile isWhiteSpace s)))"

definition trimStart :: "string \<Rightarrow> string" where
  "trimStart s = dropWhile isWhiteSpace s"

text \<open>
  \<open>s.split(sep)\<close> where the separator is one character out of \<open>seps\<close> (\<open>','\<close>, or
  the pattern \<open>/[,;]/\<close>): the empty string gives one empty piece.
\<close>

fun split_str :: "char list \<Rightarrow> string \<Rightarrow> string list" where
  "split_str seps [] = [[]]"
| "split_str seps (x # xs) =
     (if x \<in> set seps then [] # split_str seps xs
      else (case split_str seps xs of [] \<Rightarrow> [[x]] | w # ws \<Rightarrow> (x # w) # ws))"

text \<open>\<open>xs.join(sep)\<close>.\<close>

fun join :: "string \<Rightarrow> string list \<Rightarrow> string" where
  "join sep [] = []"
| "join sep [x] = x"
| "join sep (x # y # ys) = x @ sep @ join sep (y # ys)"

definition toLowerChar :: "char \<Rightarrow> char" where
  "toLowerChar c =
     (let n = (of_char c :: nat)
      in if (65 \<le> n \<and> n \<le> 90) \<or> (192 \<le> n \<and> n \<le> 222 \<and> n \<noteq> 215)
         then char_of (n + 32) else c)"

definition toLowerCase :: "string \<Rightarrow> string" where
  "toLowerCase s = map toLowerChar s"

text \<open>\<open>hay.includes(needle)\<close>: the needle occurs as a contiguous piece of the hay.\<close>

fun includes_str :: "string \<Rightarrow> string \<Rightarrow> bool" where
  "includes_str [] needle = (needle = [])"
| "includes_str (c # hay) needle = (prefix needle (c # hay) \<or> includes_str hay needle)"

subsection \<open>parseInt\<close>

definition digitValue :: "char \<Rightarrow> nat option" where
  "digitValue c =
     (let n = (of_char c :: nat)
      in if 48 \<le> n \<and> n \<le> 57 then Some (n - 48)
         else if 97 \<le> n \<and> n \<le> 122 then Some (n - 87)
         else if 65 \<le> n \<and> n \<le> 90 then Some (n - 55)
         else None)"

definition isRadixDigit :: "nat \<Rightarrow> char \<Rightarrow> bool" where
  "isRadixDigit r c = (case digitValue c of None \<Rightarrow> False | Some d \<Rightarrow> d < r)"

fun radixValue :: "nat \<Rightarrow> nat \<Rightarrow> string \<Rightarrow> nat" where
  "radixValue r acc [] = acc"
| "radixValue r acc (c # cs) =
     radixValue r (acc * r + (case digitValue c of None \<Rightarrow> 0 | Some d \<Rightarrow> d)) cs"

text \<open>
  An integer that a double holds exactly, together with its neighbours
  (\<open>Number.isSafeInteger\<close>). On these the arithmetic that the program does below
  (\<open>parseInt\<close>, \<open>x || 0\<close>, \<open>Math.floor(x / 3)\<close>) is exact.
\<close>

definition safeInteger :: "int \<Rightarrow> bool" where
  "safeInteger n = (\<bar>n\<bar> < 2 ^ 53)"

text \<open>
  \<open>parseInt(s)\<close> without a radix: leading white space is skipped, one sign is read, a
  \<open>0x\<close> or \<open>0X\<close> prefix selects radix 16, and the longest run of digits is the value;
  no digit at all gives \<open>NaN\<close>. The value here is the exact integer of the digits. The
  program returns the double nearest to it, which is that integer when it is a safe
  integer; beyond, the two differ, and what is proved of a parsed number as a number is
  stated for safe integers.
\<close>

definition parseInt :: "string \<Rightarrow> num" where
  "parseInt s =
     (let s1 = trimStart s;
          neg = (s1 \<noteq> [] \<and> hd s1 = CHR ''-'');
          s2 = (if s1 \<noteq> [] \<and> (hd s1 = CHR ''+'' \<or> hd s1 = CHR ''-'') then tl s1 else s1);
          hex = (take 2 s2 = ''0x'' \<or> take 2 s2 = ''0X'');
          r = (if hex then 16 else 10);
          s3 = (if hex then drop 2 s2 else s2);
          z = takeWhile (isRadixDigit r) s3
      in if z = [] then None
         else Some ((if neg then - 1 else 1) * int (radixValue r 0 z)))"

text \<open>\<open>x || 0\<close> on a number: \<open>NaN\<close> and zero are falsy.\<close>

definition orZero :: "num \<Rightarrow> int" where
  "orZero x = (case x of None \<Rightarrow> 0 | Some n \<Rightarrow> n)"

text \<open>Decimal rendering of a natural number, as string concatenation does.\<close>

fun showNat :: "nat \<Rightarrow> string" where
  "showNat n = (if n < 10 then [char_of (48 + n)] else showNat (n div 10) @ [char_of (48 + n mod 10)])"

declare showNat.simps [simp del]

text \<open>Comparisons and subtraction on numbers: anything involving \<open>NaN\<close> is false, or \<open>NaN\<close>.\<close>

definition numLess :: "num \<Rightarrow> num \<Rightarrow> bool" where
  "numLess a b = (case (a, b) of (Some x, Some y) \<Rightarrow> x < y | _ \<Rightarrow> False)"

definition numSub :: "num \<Rightarrow> num \<Rightarrow> num" where
  "numSub a b = (case (a, b) of (Some x, Some y) \<Rightarrow> Some (x - y) | _ \<Rightarrow> None)"

text \<open>
  \<open>xs.slice(start, end)\<close>: a negative index counts from the end, and both are cut to
  the range of the array.
\<close>

definition slice :: "'a list \<Rightarrow> int \<Rightarrow> int \<Rightarrow> 'a list" where
  "slice xs start end' =
     (let len = int (length xs);
          k = (if start < 0 then max (len + start) 0 else min start len);
          final = (if end' < 0 then max (len + end') 0 else min end' len)
      in take (nat (max (final - k) 0)) (drop (nat k) xs))"

text \<open>
  \<open>xs.sort(cmp)\<close>: a stable sort; an element moves behind another only when the
  comparator is positive on the pair, and a \<open>NaN\<close> comparison counts as zero. Where the
  comparator orders the elements consistently (differences of numbers, a collation), a
  stable sort has one result, and this insertion sort gives it. Where it does not (a
  \<open>NaN\<close> among the differences), the order is the engine's own; then only that the
  result is a rearrangement of the input is taken from this definition.
\<close>

fun insertBy :: "('a \<Rightarrow> 'a \<Rightarrow> num) \<Rightarrow> 'a \<Rightarrow> 'a list \<Rightarrow> 'a list" where
  "insertBy cmp x [] = [x]"
| "insertBy cmp x (y # ys) =
     (if numLess (Some 0) (cmp x y) then y # insertBy cmp x ys else x # y # ys)"

definition sortBy :: "('a \<Rightarrow> 'a \<Rightarrow> num) \<Rightarrow> 'a list \<Rightarrow> 'a list" where
  "sortBy cmp xs = foldr (insertBy cmp) xs []"

section \<open>Paper records and the catalogue state\<close>

datatype ident = NumId int | StrId string

text \<open>\<open>!paper.id\<close>: an absent id, the number zero and the empty string are falsy.\<close>

definition idMissing :: "ident option \<Rightarrow> bool" where
  "idMissing i = (case i of None \<Rightarrow> True | Some (NumId n) \<Rightarrow> n = 0 | Some (StrId s) \<Rightarrow> s = [])"

text \<open>
  A paper. The id is absent, a number (\<open>papers.length + 1\<close>) or a string (a generated
  one); the numeric fields are numbers, \<open>NaN\<close> included; \<open>pdfFile\<close> is the binary payload
  and \<open>thumbnail\<close> the encoded preview, when present.
\<close>

record paper =
  paper_id :: "ident option"
  title :: string
  authors :: "string list"
  year :: num
  journal :: string
  researchArea :: string
  methodology :: string
  studyType :: string
  keywords_p :: "string list"
  citations :: num
  hIndex :: num
  downloads :: num
  abstract :: string
  doi :: string
  pdfUrl :: string
  websiteUrl :: string
  thumbnail :: "string option"
  originalThumbnail :: "string option"
  pdfFile :: "string option"
  isPersistentPDF :: bool

text \<open>
  The filter state of the session. \<open>citationMin\<close> and \<open>citationMax\<close> are \<open>null\<close>
  (\<^term>\<open>None\<close>) while the inputs are empty. The bounds of the two ranges are taken to
  be numbers, as the data model has them and as the sliders and the number inputs of the
  page give them for a numeral.
\<close>

record filterState =
  search :: string
  category :: string
  yearMin :: int
  yearMax :: int
  methodologies :: "string list"
  studyTypes :: "string list"
  venue :: string
  citationMin :: "int option"
  citationMax :: "int option"

text \<open>A thrown error: the constructor is its \<open>name\<close>, the argument its \<open>message\<close>.\<close>

datatype js_error = Error string | QuotaExceededError string | TypeError string

definition errorMessage :: "js_error \<Rightarrow> string" where
  "errorMessage e = (case e of Error m \<Rightarrow> m | QuotaExceededError m \<Rightarrow> m | TypeError m \<Rightarrow> m)"

text \<open>
  What the catalogue uses from outside: the record store (class \<open>IndexedDBStorage\<close>, whose
  operations may reject and may still have changed the store), the collation of the
  browser, the clock and the random source behind generated ids, the current year, and
  whether \<open>localStorage.setItem\<close> accepts a payload or throws. The store is a parameter
  \<open>'db\<close>; \<open>dateNow\<close> and \<open>randomSuffix\<close> are indexed by the number of ids generated so far.
\<close>

record 'db environment =
  savePaper :: "'db \<Rightarrow> paper \<Rightarrow> string option \<Rightarrow> js_error option \<times> 'db"
  saveThumbnail :: "'db \<Rightarrow> ident option \<Rightarrow> string \<Rightarrow> js_error option \<times> 'db"
  getPDFFile :: "'db \<Rightarrow> ident option \<Rightarrow> js_error + string option"
  localeCompare :: "string \<Rightarrow> string \<Rightarrow> int"
  dateNow :: "nat \<Rightarrow> nat"
  randomSuffix :: "nat \<Rightarrow> string"
  currentYear :: int
  setItem :: "paper list \<Rightarrow> js_error option"

datatype pageItem = PageButton int bool | Ellipsis

record paginationBar =
  prevDisabled :: bool
  pageItems :: "pageItem list"
  nextDisabled :: bool
  pageInfo :: "int \<times> int"

text \<open>
  The state of a \<open>LiteratureManager\<close>. \<open>localStorage\<close> is the item \<open>literaturePapers\<close>
  (absent, or the saved list), \<open>grid\<close> the cards shown in the papers grid, \<open>pagination\<close>
  the navigation bar (\<^term>\<open>None\<close> when it is emptied), \<open>notifications\<close> the messages
  shown with their type (pictographs left out), \<open>console\<close> the titles logged by
  \<open>console.error\<close>, \<open>idsGenerated\<close> the number of ids generated so far.

  Every method takes the state and returns the new one. An asynchronous call runs to
  its end where it is made. Statements that only write the page (statistics, filter
  check boxes, the detail view) have no counterpart here. Objects are values: an id that
  a loop assigns to a paper in place is written to the collection; the filtered list,
  which holds the same objects, is not rewritten.
\<close>

record 'db manager =
  papers :: "paper list"
  filteredPapers :: "paper list"
  currentCategory :: string
  currentSort :: string
  currentPage :: int
  storageInitialized :: bool
  filters :: filterState
  currentEditingPaper :: "paper option"
  isEditMode :: bool
  db :: 'db
  localStorage :: "paper list option"
  grid :: "paper list"
  pagination :: "paginationBar option"
  notifications :: "(string \<times> string) list"
  console :: "string list"
  idsGenerated :: nat

definition papersPerPage :: int where
  "papersPerPage = 12"

definition showNotification :: "string \<Rightarrow> string \<Rightarrow> 'db manager \<Rightarrow> 'db manager" where
  "showNotification message type s = s\<lparr>notifications := notifications s @ [(message, type)]\<rparr>"

section \<open>Filtering, sorting and pagination\<close>

definition searchIn :: "paper \<Rightarrow> string" where
  "searchIn p =
     toLowerCase (title p @ '' '' @ join '' '' (authors p) @ '' '' @ abstract p @ '' ''
                  @ join '' '' (keywords_p p))"

text \<open>The callback of \<open>this.papers.filter\<close> in \<open>applyFilters\<close>, check by check.\<close>

definition keepsPaper :: "filterState \<Rightarrow> paper \<Rightarrow> bool" where
  "keepsPaper f p =
     (if search f \<noteq> [] \<and> \<not> includes_str (searchIn p) (search f) then False
      else if category f \<noteq> ''all'' \<and> researchArea p \<noteq> category f then False
      else if numLess (year p) (Some (yearMin f)) \<or> numLess (Some (yearMax f)) (year p) then False
      else if methodologies f \<noteq> [] \<and> methodology p \<notin> set (methodologies f) then False
      else if studyTypes f \<noteq> [] \<and> studyType p \<notin> set (studyTypes f) then False
      else if venue f \<noteq> [] \<and> journal p \<noteq> venue f then False
      else if citationMin f \<noteq> None \<and> numLess (citations p) (citationMin f) then False
      else if citationMax f \<noteq> None \<and> numLess (citationMax f) (citations p) then False
      else True)"

definition comparePapers :: "(string \<Rightarrow> string \<Rightarrow> int) \<Rightarrow> string \<Rightarrow> paper \<Rightarrow> paper \<Rightarrow> num" where
  "comparePapers lc key a b =
     (if key = ''year-desc'' then numSub (year b) (year a)
      else if key = ''year-asc'' then numSub (year a) (year b)
      else if key = ''citations-desc'' then numSub (citations b) (citations a)
      else if key = ''citations-asc'' then numSub (citations a) (citations b)
      else if key = ''title-asc'' then Some (lc (title a) (title b))
      else numSub (year b) (year a))"

definition sortPapers :: "'db environment \<Rightarrow> 'db manager \<Rightarrow> 'db manager" where
  "sortPapers env s =
     s\<lparr>filteredPapers := sortBy (comparePapers (localeCompare env) (currentSort s)) (filteredPapers s)\<rparr>"

definition renderPapersGrid :: "'db manager \<Rightarrow> 'db manager" where
  "renderPapersGrid s =
     (let startIndex = (currentPage s - 1) * papersPerPage;
          endIndex = min (startIndex + papersPerPage) (int (length (filteredPapers s)));
          paginatedPapers = slice (filteredPapers s) startIndex endIndex
      in s\<lparr>grid := paginatedPapers\<rparr>)"

text \<open>\<open>Math.ceil(count / papersPerPage)\<close>.\<close>

definition totalPages :: "'db manager \<Rightarrow> int" where
  "totalPages s = - ((- int (length (filteredPapers s))) div papersPerPage)"

definition pageItemsFor :: "int \<Rightarrow> int \<Rightarrow> pageItem list" where
  "pageItemsFor cur tp =
     concat (map (\<lambda>i. if i = 1 \<or> i = tp \<or> (cur - 2 \<le> i \<and> i \<le> cur + 2)
                        then [PageButton i (i = cur)]
                        else if i = cur - 3 \<or> i = cur + 3 then [Ellipsis] else [])
                 [1..tp])"

definition updatePagination :: "'db manager \<Rightarrow> 'db manager" where
  "updatePagination s =
     (let tp = totalPages s
      in if tp \<le> 1 then s\<lparr>pagination := None\<rparr>
         else s\<lparr>pagination := Some \<lparr>prevDisabled = (currentPage s = 1),
                                      pageItems = pageItemsFor (currentPage s) tp,
                                      nextDisabled = (currentPage s = tp),
                                      pageInfo = (currentPage s, tp)\<rparr>\<rparr>)"

definition goToPage :: "int \<Rightarrow> 'db manager \<Rightarrow> 'db manager" where
  "goToPage page s = updatePagination (renderPapersGrid (s\<lparr>currentPage := page\<rparr>))"

definition applyFilters :: "'db environment \<Rightarrow> 'db manager \<Rightarrow> 'db manager" where
  "applyFilters env s =
     (let s1 = s\<lparr>filteredPapers := filter (keepsPaper (filters s)) (papers s)\<rparr>;
          s2 = sortPapers env s1;
          s3 = s2\<lparr>currentPage := 1\<rparr>
      in updatePagination (renderPapersGrid s3))"

text \<open>The listener of the search box stores the text in lower case and filters again.\<close>

definition onSearchInput :: "'db environment \<Rightarrow> string \<Rightarrow> 'db manager \<Rightarrow> 'db manager" where
  "onSearchInput env v s = applyFilters env (s\<lparr>filters := (filters s)\<lparr>search := toLowerCase v\<rparr>\<rparr>)"

section \<open>Saving\<close>

definition newId :: "'db environment \<Rightarrow> nat \<Rightarrow> ident" where
  "newId env n = StrId (''paper_'' @ showNat (dateNow env n) @ ''_'' @ randomSuffix env n)"

text \<open>\<open>if (!paper.id) paper.id = 'paper_' + Date.now() + '_' + ...\<close>\<close>

definition ensureId :: "'db environment \<Rightarrow> nat \<Rightarrow> paper \<Rightarrow> paper \<times> nat" where
  "ensureId env n p =
     (if idMissing (paper_id p) then (p\<lparr>paper_id := Some (newId env n)\<rparr>, Suc n) else (p, n))"

text \<open>
  The state of a loop over the papers: the papers already visited (an id may have been
  assigned to them), the store, the number of ids generated, the success counter, one
  outcome for each visited paper, and the titles logged for the failures.
\<close>

record 'db batch =
  processed :: "paper list"
  store :: 'db
  ids :: nat
  counter :: nat
  outcomes :: "bool list"
  logged :: "string list"

definition startBatch :: "'db manager \<Rightarrow> 'db batch" where
  "startBatch s = \<lparr>processed = [], store = db s, ids = idsGenerated s, counter = 0,
                    outcomes = [], logged = []\<rparr>"

definition batchOk :: "'db batch \<Rightarrow> paper \<Rightarrow> 'db \<Rightarrow> nat \<Rightarrow> 'db batch" where
  "batchOk b p d n = b\<lparr>processed := processed b @ [p], store := d, ids := n,
                        counter := Suc (counter b), outcomes := outcomes b @ [True]\<rparr>"

definition batchFailed :: "'db batch \<Rightarrow> paper \<Rightarrow> 'db \<Rightarrow> nat \<Rightarrow> 'db batch" where
  "batchFailed b p d n = b\<lparr>processed := processed b @ [p], store := d, ids := n,
                            outcomes := outcomes b @ [False], logged := logged b @ [title p]\<rparr>"

text \<open>One turn of the loop of \<open>saveData\<close> on the record store.\<close>

definition saveStep :: "'db environment \<Rightarrow> 'db batch \<Rightarrow> paper \<Rightarrow> 'db batch" where
  "saveStep env b p0 =
     (case ensureId env (ids b) p0 of (p, n) \<Rightarrow>
        (case savePaper env (store b) p None of
           (Some e, d) \<Rightarrow> batchFailed b p d n
         | (None, d) \<Rightarrow> batchOk b p d n))"

text \<open>What \<open>saveData\<close> keeps of a paper for \<open>localStorage\<close>.\<close>

definition stripForLocalStorage :: "paper \<Rightarrow> paper" where
  "stripForLocalStorage p =
     p\<lparr>pdfFile := None,
       thumbnail := (case thumbnail p of
                       None \<Rightarrow> None
                     | Some t \<Rightarrow> if t \<noteq> [] \<and> length t < 50000 then Some t else None)\<rparr>"

definition papersToSave :: "paper list \<Rightarrow> paper list" where
  "papersToSave ps = map stripForLocalStorage ps"

definition saveData :: "'db environment \<Rightarrow> 'db manager \<Rightarrow> bool \<times> 'db manager" where
  "saveData env s =
     (if storageInitialized s then
        (let b = foldl (saveStep env) (startBatch s) (papers s)
         in (True, s\<lparr>papers := processed b, db := store b, idsGenerated := ids b,
                      console := console s @ logged b\<rparr>))
      else
        (case setItem env (papersToSave (papers s)) of
           None \<Rightarrow> (True, s\<lparr>localStorage := Some (papersToSave (papers s))\<rparr>)
         | Some (QuotaExceededError m) \<Rightarrow>
             (False, showNotification
                ''Storage quota exceeded! Please upgrade to secure storage or clear old data.''
                ''error'' s)
         | Some e \<Rightarrow>
             (False, showNotification (''Failed to save data: '' @ errorMessage e) ''error'' s)))"

section \<open>Migration to the record store\<close>

text \<open>\<open>if (paper.thumbnail)\<close>: the thumbnail when it is present and not the empty string.\<close>

definition truthyThumbnail :: "paper \<Rightarrow> string option" where
  "truthyThumbnail p =
     (case thumbnail p of None \<Rightarrow> None | Some t \<Rightarrow> if t = [] then None else Some t)"

text \<open>
  The body of the \<open>try\<close> for one paper: whether it ran to \<open>migratedCount++\<close>, and the
  paper, the store and the number of generated ids it leaves.
\<close>

definition migrateAttempt :: "'db environment \<Rightarrow> 'db \<Rightarrow> nat \<Rightarrow> paper \<Rightarrow> bool \<times> paper \<times> 'db \<times> nat" where
  "migrateAttempt env d0 n0 p0 =
     (case ensureId env n0 p0 of (p, n) \<Rightarrow>
        (case savePaper env d0 p None of
           (Some e, d) \<Rightarrow> (False, p, d, n)
         | (None, d) \<Rightarrow>
             (case truthyThumbnail p of
                None \<Rightarrow> (True, p, d, n)
              | Some t \<Rightarrow>
                  (case saveThumbnail env d (paper_id p) t of
                     (Some e, d') \<Rightarrow> (False, p, d', n)
                   | (None, d') \<Rightarrow> (True, p, d', n)))))"

definition migrateStep :: "'db environment \<Rightarrow> 'db batch \<Rightarrow> paper \<Rightarrow> 'db batch" where
  "migrateStep env b p0 =
     (case migrateAttempt env (store b) (ids b) p0 of
        (ok, p, d, n) \<Rightarrow> if ok then batchOk b p d n else batchFailed b p d n)"

text \<open>The loop \<open>for (let paper of this.papers)\<close>, from a loop state on.\<close>

definition migrateLoop :: "'db environment \<Rightarrow> 'db batch \<Rightarrow> paper list \<Rightarrow> 'db batch" where
  "migrateLoop env b ps = foldl (migrateStep env) b ps"

definition migrateToIndexedDB :: "'db environment \<Rightarrow> 'db manager \<Rightarrow> 'db manager" where
  "migrateToIndexedDB env s =
     (if \<not> storageInitialized s \<or> papers s = [] then s
      else
        (let b = migrateLoop env (startBatch s) (papers s);
             migratedCount = counter b;
             s1 = s\<lparr>papers := processed b, db := store b, idsGenerated := ids b,
                    console := console s @ logged b\<rparr>
         in if migratedCount > 0
            then showNotification
                   (''Successfully migrated '' @ showNat migratedCount @ '' papers to secure storage!'')
                   ''success'' (s1\<lparr>localStorage := None\<rparr>)
            else s1))"

section \<open>Editing a paper\<close>

text \<open>The values of the inputs of the edit form when Save is pressed.\<close>

record editForm =
  edit_authors :: string
  edit_journal :: string
  edit_year :: string
  edit_researchArea :: string
  edit_methodology :: string
  edit_studyType :: string
  edit_abstract :: string
  edit_keywords :: string
  edit_citations :: string
  edit_downloads :: string
  edit_doi :: string

definition commaList :: "string \<Rightarrow> string list" where
  "commaList v = filter (\<lambda>a. a \<noteq> []) (map trim (split_str '','' v))"

fun findIndex :: "('a \<Rightarrow> bool) \<Rightarrow> 'a list \<Rightarrow> nat option" where
  "findIndex P [] = None"
| "findIndex P (x # xs) = (if P x then Some 0 else map_option Suc (findIndex P xs))"

text \<open>The object \<open>editedPaper\<close> before its \<open>hIndex\<close> is set; the year is given apart.\<close>

definition editedPaper :: "paper \<Rightarrow> editForm \<Rightarrow> num \<Rightarrow> paper" where
  "editedPaper cur form y =
     cur\<lparr>authors := commaList (edit_authors form),
         journal := trim (edit_journal form),
         year := y,
         researchArea := edit_researchArea form,
         methodology := edit_methodology form,
         studyType := edit_studyType form,
         abstract := trim (edit_abstract form),
         keywords_p := commaList (edit_keywords form),
         citations := Some (orZero (parseInt (edit_citations form))),
         downloads := Some (orZero (parseInt (edit_downloads form))),
         doi := trim (edit_doi form)\<rparr>"

text \<open>
  \<open>Math.floor(editedPaper.citations / 3)\<close>, the citations being an integer here. The
  program divides in doubles; for a safe integer the floor of that quotient is the integer
  quotient, which this definition gives. Beyond the safe integers the program's quotient
  is rounded before the floor is taken, and the definition does not follow it there.
\<close>

definition floorThird :: "num \<Rightarrow> num" where
  "floorThird c = map_option (\<lambda>n. n div 3) c"

text \<open>
  \<open>savePaperDetails\<close>. After \<open>saveData\<close> the edited object may have received an id in
  place; \<open>currentEditingPaper\<close> is that same object, so it is read back from the array.
\<close>

definition savePaperDetails :: "'db environment \<Rightarrow> editForm \<Rightarrow> 'db manager \<Rightarrow> 'db manager" where
  "savePaperDetails env form s =
     (case currentEditingPaper s of
        None \<Rightarrow> s
      | Some cur \<Rightarrow>
          (let edited = editedPaper cur form (parseInt (edit_year form))
           in if authors edited = [] \<or> journal edited = [] \<or> year edited = None \<or> year edited = Some 0
              then showNotification ''Please fill in required fields: authors, journal and year''
                     ''error'' s
              else if numLess (year edited) (Some 1900) \<or> numLess (Some 2030) (year edited)
              then showNotification ''Please enter a valid publication year'' ''error'' s
              else
                (case findIndex (\<lambda>p. paper_id p = paper_id cur) (papers s) of
                   None \<Rightarrow> s
                 | Some paperIndex \<Rightarrow>
                     (let edited' = edited\<lparr>hIndex := floorThird (citations edited)\<rparr>;
                          s1 = s\<lparr>papers := (papers s)[paperIndex := edited'],
                                 currentEditingPaper := Some edited'\<rparr>;
                          s2 = snd (saveData env s1);
                          s3 = s2\<lparr>currentEditingPaper := Some (papers s2 ! paperIndex)\<rparr>;
                          s4 = applyFilters env s3;
                          s5 = s4\<lparr>isEditMode := False\<rparr>
                      in showNotification ''Paper information saved successfully!'' ''success'' s5))))"

section \<open>Adding a paper\<close>

text \<open>
  A value read from a parsed JSON object or a CSV row: absent, a string, an integer,
  or an array of strings.
\<close>

datatype jsval = JUndefined | JString string | JNumber int | JArray "string list"

definition truthy :: "jsval \<Rightarrow> bool" where
  "truthy v = (case v of JUndefined \<Rightarrow> False | JString s \<Rightarrow> s \<noteq> [] | JNumber n \<Rightarrow> n \<noteq> 0
               | JArray xs \<Rightarrow> True)"

text \<open>\<open>a || b\<close>\<close>

definition jsOr :: "jsval \<Rightarrow> jsval \<Rightarrow> jsval" where
  "jsOr a b = (if truthy a then a else b)"

text \<open>
  The string form of an integer number. Up to 21 digits are written out. A longer number
  (given by its shortest decimal form) is written with an exponent: the first digit, the
  further digits up to the last that is not zero behind a point, and \<open>e+\<close> with the
  number of digits less one, as in \<open>1e+21\<close> and \<open>1.5e+22\<close>.
\<close>

definition showInt :: "int \<Rightarrow> string" where
  "showInt n =
     (let digits = showNat (nat \<bar>n\<bar>);
          sign = (if n < 0 then ''-'' else []);
          significant = rev (dropWhile (\<lambda>c. c = CHR ''0'') (rev digits))
      in if length digits \<le> 21 then sign @ digits
         else sign @ take 1 significant
              @ (if drop 1 significant = [] then [] else ''.'' @ drop 1 significant)
              @ ''e+'' @ showNat (length digits - 1))"

text \<open>
  The string form of a value. The paper record keeps its text fields as strings, so a
  value of another kind that the program would store as it is appears in this form.
\<close>

definition toString :: "jsval \<Rightarrow> string" where
  "toString v = (case v of JUndefined \<Rightarrow> ''undefined'' | JString s \<Rightarrow> s | JNumber n \<Rightarrow> showInt n
                 | JArray xs \<Rightarrow> join '','' xs)"

text \<open>\<open>v.split(/[,;]/)\<close>, which only a string has.\<close>

definition splitField :: "jsval \<Rightarrow> js_error + string list" where
  "splitField v = (case v of JString s \<Rightarrow> Inr (split_str '',;'' s)
                   | _ \<Rightarrow> Inl (TypeError ''split is not a function''))"

definition authorsField :: "(string \<Rightarrow> jsval) \<Rightarrow> js_error + string list" where
  "authorsField data =
     (case data ''authors'' of
        JArray xs \<Rightarrow> Inr xs
      | v \<Rightarrow> (case splitField (jsOr (jsOr v (data ''Authors'')) (JString ''Unknown'')) of
                Inl e \<Rightarrow> Inl e
              | Inr xs \<Rightarrow> Inr (map trim xs)))"

definition keywordsField :: "(string \<Rightarrow> jsval) \<Rightarrow> js_error + string list" where
  "keywordsField data =
     (case data ''keywords'' of
        JArray xs \<Rightarrow> Inr xs
      | v \<Rightarrow> (case splitField (jsOr (jsOr v (data ''Keywords'')) (JString [])) of
                Inl e \<Rightarrow> Inl e
              | Inr xs \<Rightarrow> Inr (filter (\<lambda>k. k \<noteq> []) (map trim xs))))"

definition normalizepaperData ::
  "'db environment \<Rightarrow> 'db manager \<Rightarrow> (string \<Rightarrow> jsval) \<Rightarrow> string \<Rightarrow> js_error + paper" where
  "normalizepaperData env s data selectedCategory =
     (let researchArea' =
            (if selectedCategory = ''auto''
             then toString (jsOr (jsOr (data ''researchArea'') (data ''Research Field''))
                                 (JString ''General''))
             else selectedCategory)
      in case authorsField data of
           Inl e \<Rightarrow> Inl e
         | Inr authors' \<Rightarrow>
             (case keywordsField data of
                Inl e \<Rightarrow> Inl e
              | Inr keywords' \<Rightarrow>
                  Inr \<lparr>paper_id = Some (NumId (int (length (papers s)) + 1)),
                       title = toString (jsOr (jsOr (data ''title'') (data ''Title'')) (JString ''Untitled'')),
                       authors = authors',
                       year = parseInt (toString (jsOr (jsOr (data ''year'') (data ''Year''))
                                                       (JNumber (currentYear env)))),
                       journal = toString (jsOr (jsOr (jsOr (data ''journal'') (data ''Journal''))
                                                      (data ''venue'')) (JString ''Unknown Journal'')),
                       researchArea = researchArea',
                       methodology = toString (jsOr (jsOr (data ''methodology'') (data ''Method''))
                                                    (JString ''Experimental'')),
                       studyType = toString (jsOr (jsOr (data ''studyType'') (data ''Type''))
                                                  (JString ''Empirical'')),
                       keywords_p = keywords',
                       citations = parseInt (toString (jsOr (jsOr (data ''citations'') (data ''Citations''))
                                                            (JNumber 0))),
                       hIndex = parseInt (toString (jsOr (jsOr (data ''hIndex'') (data ''H-Index''))
                                                         (JNumber 0))),
                       downloads = parseInt (toString (jsOr (jsOr (data ''downloads'') (data ''Downloads''))
                                                            (JNumber 0))),
                       abstract = toString (jsOr (jsOr (data ''abstract'') (data ''Abstract'')) (JString [])),
                       doi = toString (jsOr (jsOr (data ''doi'') (data ''DOI'')) (JString [])),
                       pdfUrl = toString (jsOr (jsOr (data ''pdfUrl'') (data ''PDF Link'')) (JString ''#'')),
                       websiteUrl = toString (jsOr (jsOr (data ''websiteUrl'') (data ''Website Link''))
                                                   (JString ''#'')),
                       thumbnail = None,
                       originalThumbnail = None,
                       pdfFile = None,
                       isPersistentPDF = False\<rparr>))"

text \<open>The \<open>catch\<close> of \<open>addPaper\<close>: the error is shown and thrown again.\<close>

definition addFailed :: "js_error \<Rightarrow> 'db manager \<Rightarrow> (js_error + ident option) \<times> 'db manager" where
  "addFailed e s = (Inl e, showNotification (''Error adding paper: '' @ errorMessage e) ''error'' s)"

text \<open>\<open>addPaper\<close> from \<open>this.papers.push(paperData)\<close> on.\<close>

definition addToMemory :: "'db environment \<Rightarrow> paper \<Rightarrow> 'db manager \<Rightarrow> (js_error + ident option) \<times> 'db manager" where
  "addToMemory env pd s =
     (let s1 = s\<lparr>papers := papers s @ [pd]\<rparr>;
          s2 = (if storageInitialized s1 then
                  (let lightweightPaper = pd\<lparr>pdfFile := None\<rparr>;
                       localPapers = (case localStorage s1 of None \<Rightarrow> [] | Some l \<Rightarrow> l)
                                     @ [lightweightPaper]
                   in case setItem env localPapers of
                        None \<Rightarrow> s1\<lparr>localStorage := Some localPapers\<rparr>
                      | Some e \<Rightarrow> s1)
                else snd (saveData env s1));
          s3 = applyFilters env s2;
          s4 = updatePagination (renderPapersGrid (s3\<lparr>currentPage := 1\<rparr>))
      in (Inr (paper_id pd), s4))"

definition addPaper :: "'db environment \<Rightarrow> paper \<Rightarrow> 'db manager \<Rightarrow> (js_error + ident option) \<times> 'db manager" where
  "addPaper env paperData s =
     (case ensureId env (idsGenerated s) paperData of (pd, n) \<Rightarrow>
        (let s0 = s\<lparr>idsGenerated := n\<rparr>
         in if storageInitialized s0 then
              (case savePaper env (db s0) pd (pdfFile pd) of
                 (Some e, d1) \<Rightarrow> addFailed e (s0\<lparr>db := d1\<rparr>)
               | (None, d1) \<Rightarrow>
                   (case (case truthyThumbnail pd of
                            None \<Rightarrow> (None, d1)
                          | Some t \<Rightarrow> saveThumbnail env d1 (paper_id pd) t) of
                      (Some e, d2) \<Rightarrow> addFailed e (s0\<lparr>db := d2\<rparr>)
                    | (None, d2) \<Rightarrow>
                        (if pdfFile pd \<noteq> None \<and> \<not> prefix ''data:'' (pdfUrl pd) then
                           (case getPDFFile env d2 (paper_id pd) of
                              Inl e \<Rightarrow> addFailed e (s0\<lparr>db := d2\<rparr>)
                            | Inr None \<Rightarrow> addToMemory env pd (s0\<lparr>db := d2\<rparr>)
                            | Inr (Some url) \<Rightarrow>
                                addToMemory env (pd\<lparr>pdfUrl := url, isPersistentPDF := True\<rparr>)
                                  (s0\<lparr>db := d2\<rparr>))
                         else addToMemory env pd (s0\<lparr>db := d2\<rparr>))))
            else addToMemory env pd s0))"

text \<open>
  \<open>parseJSON\<close> on the parsed object, and the turn of the loop of \<open>processFiles\<close> for
  such a file: the paper is added when the file could be parsed.
\<close>

definition parseJSON ::
  "'db environment \<Rightarrow> 'db manager \<Rightarrow> (string \<Rightarrow> jsval) \<Rightarrow> string \<Rightarrow> js_error + paper" where
  "parseJSON env s data selectedCategory =
     (if truthy (data ''title'') \<and> truthy (data ''authors'') \<and> truthy (data ''year'')
      then normalizepaperData env s data selectedCategory
      else Inl (Error ''JSON file missing required fields (title, authors, year)''))"

definition processJsonFile ::
  "'db environment \<Rightarrow> (string \<Rightarrow> jsval) \<Rightarrow> string \<Rightarrow> 'db manager
     \<Rightarrow> (js_error + ident option) \<times> 'db manager" where
  "processJsonFile env data selectedCategory s =
     (case parseJSON env s data selectedCategory of
        Inl e \<Rightarrow> (Inl e, s)
      | Inr paperData \<Rightarrow> addPaper env paperData s)"

section \<open>Uploading to a hosted release\<close>

record uploader =
  repoOwner :: string
  repoName :: string
  token :: "string option"

record releaseInfo =
  info_tag_name :: string
  info_name :: string
  info_body :: string

text \<open>
  The fields that the program reads from a JSON answer of the release service: the
  \<open>message\<close> of an error answer, and \<open>id\<close>, \<open>name\<close>, \<open>tag_name\<close>, \<open>html_url\<close> and
  \<open>browser_download_url\<close> of a release or an asset (absent ones are \<^term>\<open>None\<close>).
\<close>

record apiJson =
  json_message :: string
  json_id :: int
  json_name :: string
  json_tag_name :: "string option"
  json_html_url :: string
  json_browser_download_url :: "string option"

text \<open>
  The two requests, by what determines them: owner, repository and token, then the
  release description, or the release id, the file name and the body.
\<close>

datatype request =
    CreateReleaseRequest string string string releaseInfo
  | UploadAssetRequest string string string int string string

text \<open>\<open>fetch\<close> rejects, or answers with \<open>response.ok\<close> and a JSON body.\<close>

datatype response = Rejected js_error | Answer bool apiJson

type_synonym 'net fetch = "'net \<Rightarrow> request \<Rightarrow> response \<times> 'net"

definition tokenMissing :: "uploader \<Rightarrow> bool" where
  "tokenMissing up = (case token up of None \<Rightarrow> True | Some t \<Rightarrow> t = [])"

definition tokenText :: "uploader \<Rightarrow> string" where
  "tokenText up = (case token up of None \<Rightarrow> [] | Some t \<Rightarrow> t)"

definition createRelease ::
  "'net fetch \<Rightarrow> uploader \<Rightarrow> releaseInfo \<Rightarrow> 'net \<Rightarrow> (js_error + apiJson) \<times> 'net" where
  "createRelease fetch up info net =
     (if tokenMissing up then (Inl (Error ''GitHub token is required for creating releases''), net)
      else
        (case fetch net (CreateReleaseRequest (repoOwner up) (repoName up) (tokenText up) info) of
           (Rejected e, net') \<Rightarrow> (Inl e, net')
         | (Answer ok body, net') \<Rightarrow>
             if \<not> ok then (Inl (Error (''Failed to create release: '' @ json_message body)), net')
             else (Inr body, net')))"

definition uploadAsset ::
  "'net fetch \<Rightarrow> uploader \<Rightarrow> int \<Rightarrow> string \<Rightarrow> string \<Rightarrow> 'net \<Rightarrow> (js_error + apiJson) \<times> 'net" where
  "uploadAsset fetch up releaseId fileName fileBlob net =
     (if tokenMissing up then (Inl (Error ''GitHub token is required for uploading assets''), net)
      else
        (case fetch net (UploadAssetRequest (repoOwner up) (repoName up) (tokenText up)
                           releaseId fileName fileBlob) of
           (Rejected e, net') \<Rightarrow> (Inl e, net')
         | (Answer ok body, net') \<Rightarrow>
             if \<not> ok
             then (Inl (Error (''Failed to upload asset '' @ fileName @ '': '' @ json_message body)), net')
             else (Inr body, net')))"

text \<open>An entry of \<open>pdfFiles\<close>, prepared by the exporter.\<close>

record pdfAsset =
  standardFileName :: string
  asset_paperId :: "ident option"
  asset_blob :: string

record uploadResult =
  success :: bool
  result_fileName :: string
  result_paperId :: "ident option"
  downloadUrl :: "string option"
  cdnUrl :: "string option"
  errorText :: "string option"

datatype progressEvent =
    Step string string
  | Uploaded nat nat string
  | UploadError nat nat string string

record 'net uploadRun =
  results :: "uploadResult list"
  progress :: "progressEvent list"
  network :: 'net

text \<open>\<open>result.tag_name || 'latest'\<close>\<close>

definition tagOrLatest :: "apiJson \<Rightarrow> string" where
  "tagOrLatest result =
     (case json_tag_name result of None \<Rightarrow> ''latest'' | Some t \<Rightarrow> if t = [] then ''latest'' else t)"

definition cdnUrlFor :: "uploader \<Rightarrow> apiJson \<Rightarrow> pdfAsset \<Rightarrow> string" where
  "cdnUrlFor up result pdfFile' =
     ''https://cdn.jsdelivr.net/gh/'' @ repoOwner up @ ''/'' @ repoName up @ ''@''
       @ tagOrLatest result @ ''/'' @ standardFileName pdfFile'"

text \<open>
  One turn of the loop of \<open>uploadPDFs\<close>, for the asset at index \<open>i\<close> out of \<open>n\<close>. The
  callback \<open>onProgress\<close>, when given, records its argument and does not throw.
\<close>

definition uploadOne ::
  "'net fetch \<Rightarrow> uploader \<Rightarrow> int \<Rightarrow> bool \<Rightarrow> nat \<Rightarrow> nat \<Rightarrow> pdfAsset \<Rightarrow> 'net uploadRun \<Rightarrow> 'net uploadRun" where
  "uploadOne fetch up releaseId onProgress n i pdfFile' run =
     (case uploadAsset fetch up releaseId (standardFileName pdfFile') (asset_blob pdfFile') (network run) of
        (Inr result, net') \<Rightarrow>
          run\<lparr>results := results run @
                 [\<lparr>success = True, result_fileName = standardFileName pdfFile',
                   result_paperId = asset_paperId pdfFile',
                   downloadUrl = json_browser_download_url result,
                   cdnUrl = Some (cdnUrlFor up result pdfFile'), errorText = None\<rparr>],
              progress := progress run @
                 (if onProgress then [Uploaded (i + 1) n (standardFileName pdfFile')] else []),
              network := net'\<rparr>
      | (Inl e, net') \<Rightarrow>
          run\<lparr>results := results run @
                 [\<lparr>success = False, result_fileName = standardFileName pdfFile',
                   result_paperId = asset_paperId pdfFile',
                   downloadUrl = None, cdnUrl = None, errorText = Some (errorMessage e)\<rparr>],
              progress := progress run @
                 (if onProgress
                  then [UploadError (i + 1) n (standardFileName pdfFile') (errorMessage e)] else []),
              network := net'\<rparr>)"

text \<open>The loop \<open>for (let i = 0; i < pdfFiles.length; i++)\<close>, on the files from index \<open>i\<close> on.\<close>

fun uploadLoop ::
  "'net fetch \<Rightarrow> uploader \<Rightarrow> int \<Rightarrow> bool \<Rightarrow> nat \<Rightarrow> nat \<Rightarrow> pdfAsset list \<Rightarrow> 'net uploadRun \<Rightarrow> 'net uploadRun" where
  "uploadLoop fetch up releaseId onProgress n i [] run = run"
| "uploadLoop fetch up releaseId onProgress n i (f # fs) run =
     uploadLoop fetch up releaseId onProgress n (Suc i) fs
       (uploadOne fetch up releaseId onProgress n i f run)"

definition uploadPDFs ::
  "'net fetch \<Rightarrow> uploader \<Rightarrow> int \<Rightarrow> pdfAsset list \<Rightarrow> bool \<Rightarrow> 'net \<Rightarrow> 'net uploadRun" where
  "uploadPDFs fetch up releaseId pdfFiles onProgress net =
     uploadLoop fetch up releaseId onProgress (length pdfFiles) 0 pdfFiles
       \<lparr>results = [], progress = [], network = net\<rparr>"

text \<open>
  A JSON file of the export: its \<open>id\<close> and \<open>pdfUrl\<close> when it has them, and the rest of
  its content, which the uploader does not read.
\<close>

record jsonDoc =
  doc_id :: "ident option"
  doc_pdfUrl :: "string option"
  doc_rest :: string

definition isPaperFile :: "string \<Rightarrow> bool" where
  "isPaperFile filePath = (includes_str filePath ''papers/'' \<and> suffix ''.json'' filePath)"

definition updateCDNUrls ::
  "(string \<times> jsonDoc) list \<Rightarrow> string option \<Rightarrow> uploadResult list \<Rightarrow> (string \<times> jsonDoc) list" where
  "updateCDNUrls jsonFiles tagName uploadResults =
     (let successfulUploads = filter success uploadResults
      in map (\<lambda>(filePath, paperData).
                if isPaperFile filePath then
                  (case find (\<lambda>r. result_paperId r = doc_id paperData) successfulUploads of
                     None \<Rightarrow> (filePath, paperData)
                   | Some uploadResult \<Rightarrow> (filePath, paperData\<lparr>doc_pdfUrl := cdnUrl uploadResult\<rparr>))
                else (filePath, paperData))
             jsonFiles)"

record exportResult =
  releaseInfo :: releaseInfo
  pdfFiles :: "pdfAsset list"
  jsonFiles :: "(string \<times> jsonDoc) list"

record instructions =
  totalPDFs :: nat
  successfulUploads :: nat
  failedUploads :: nat
  jsonFileCount :: nat

definition generateDeploymentInstructions ::
  "uploadResult list \<Rightarrow> (string \<times> jsonDoc) list \<Rightarrow> instructions" where
  "generateDeploymentInstructions uploadResults files =
     \<lparr>totalPDFs = length uploadResults,
      successfulUploads = length (filter success uploadResults),
      failedUploads = length (filter (\<lambda>r. \<not> success r) uploadResults),
      jsonFileCount = length files\<rparr>"

record deployOutcome =
  deploy_release :: apiJson
  deploy_uploadResults :: "uploadResult list"
  deploy_jsonFiles :: "(string \<times> jsonDoc) list"
  cdnBaseUrl :: string
  deploy_instructions :: instructions
  deploy_progress :: "progressEvent list"

text \<open>\<open>${release.tag_name}\<close> in a template.\<close>

definition tagText :: "string option \<Rightarrow> string" where
  "tagText t = (case t of None \<Rightarrow> ''undefined'' | Some x \<Rightarrow> x)"

definition cdnBase :: "uploader \<Rightarrow> apiJson \<Rightarrow> string" where
  "cdnBase up release =
     ''https://cdn.jsdelivr.net/gh/'' @ repoOwner up @ ''/'' @ repoName up @ ''@''
       @ tagText (json_tag_name release) @ ''/''"

definition deployToGitHubReleases ::
  "'net fetch \<Rightarrow> uploader \<Rightarrow> exportResult \<Rightarrow> bool \<Rightarrow> 'net \<Rightarrow> (js_error + deployOutcome) \<times> 'net" where
  "deployToGitHubReleases fetch up exportResult' onProgress net =
     (let started = (if onProgress then [Step ''creating_release'' ''Creating GitHub release...''] else [])
      in case createRelease fetch up (releaseInfo exportResult') net of
           (Inl e, net1) \<Rightarrow> (Inl e, net1)
         | (Inr release, net1) \<Rightarrow>
             if pdfFiles exportResult' \<noteq> [] then
               (let announced = started @
                      (if onProgress
                       then [Step ''uploading_pdfs''
                               (''Uploading '' @ showNat (length (pdfFiles exportResult')) @ '' PDF files...'')]
                       else []);
                    run = uploadPDFs fetch up (json_id release) (pdfFiles exportResult') onProgress net1;
                    updatedJsonFiles = updateCDNUrls (jsonFiles exportResult') (json_tag_name release)
                                         (results run)
                in (Inr \<lparr>deploy_release = release,
                         deploy_uploadResults = results run,
                         deploy_jsonFiles = updatedJsonFiles,
                         cdnBaseUrl = cdnBase up release,
                         deploy_instructions = generateDeploymentInstructions (results run) updatedJsonFiles,
                         deploy_progress = announced @ progress run\<rparr>,
                    network run))
             else
               (Inr \<lparr>deploy_release = release,
                     deploy_uploadResults = [],
                     deploy_jsonFiles = jsonFiles exportResult',
                     cdnBaseUrl = cdnBase up release,
                     deploy_instructions = generateDeploymentInstructions [] (jsonFiles exportResult'),
                     deploy_progress = started\<rparr>,
                net1))"

section \<open>The properties, in the words of the specification\<close>

text \<open>
  The required-field policy of an edit: authors non-empty, venue non-empty, year present
  and within 1900 to 2030. \<open>failsPolicy\<close> holds of the form values that break it.
\<close>

definition failsPolicy :: "editForm \<Rightarrow> bool" where
  "failsPolicy form =
     (commaList (edit_authors form) = [] \<or> trim (edit_journal form) = [] \<or>
      (case parseInt (edit_year form) of None \<Rightarrow> True | Some y \<Rightarrow> y < 1900 \<or> 2030 < y))"

text \<open>The record that an accepted edit of \<open>cur\<close> stores.\<close>

definition acceptedEdit :: "paper \<Rightarrow> editForm \<Rightarrow> paper" where
  "acceptedEdit cur form =
     (editedPaper cur form (parseInt (edit_year form)))
       \<lparr>hIndex := floorThird (Some (orZero (parseInt (edit_citations form))))\<rparr>"

text \<open>A paper with its id left out: what the loops of \<open>saveData\<close> never change.\<close>

definition withoutId :: "paper \<Rightarrow> paper" where
  "withoutId p = p\<lparr>paper_id := None\<rparr>"

text \<open>
  The predicates of the filter state. Each is active only when its part of the filter
  state is set; the text predicate compares without regard to case.
\<close>

definition searchedText :: "paper \<Rightarrow> string" where
  "searchedText p =
     title p @ '' '' @ join '' '' (authors p) @ '' '' @ abstract p @ '' '' @ join '' '' (keywords_p p)"

definition textMatches :: "filterState \<Rightarrow> paper \<Rightarrow> bool" where
  "textMatches f p =
     (search f = [] \<or> includes_str (toLowerCase (searchedText p)) (toLowerCase (search f)))"

definition categoryMatches :: "filterState \<Rightarrow> paper \<Rightarrow> bool" where
  "categoryMatches f p = (category f = ''all'' \<or> researchArea p = category f)"

definition yearInRange :: "filterState \<Rightarrow> paper \<Rightarrow> bool" where
  "yearInRange f p = (case year p of None \<Rightarrow> False | Some y \<Rightarrow> yearMin f \<le> y \<and> y \<le> yearMax f)"

definition methodologyMatches :: "filterState \<Rightarrow> paper \<Rightarrow> bool" where
  "methodologyMatches f p = (methodologies f = [] \<or> methodology p \<in> set (methodologies f))"

definition studyTypeMatches :: "filterState \<Rightarrow> paper \<Rightarrow> bool" where
  "studyTypeMatches f p = (studyTypes f = [] \<or> studyType p \<in> set (studyTypes f))"

definition venueMatches :: "filterState \<Rightarrow> paper \<Rightarrow> bool" where
  "venueMatches f p = (venue f = [] \<or> journal p = venue f)"

definition citationsInRange :: "filterState \<Rightarrow> paper \<Rightarrow> bool" where
  "citationsInRange f p =
     ((case citationMin f of None \<Rightarrow> True
       | Some lo \<Rightarrow> (case citations p of None \<Rightarrow> False | Some c \<Rightarrow> lo \<le> c)) \<and>
      (case citationMax f of None \<Rightarrow> True
       | Some hi \<Rightarrow> (case citations p of None \<Rightarrow> False | Some c \<Rightarrow> c \<le> hi)))"

definition satisfiesAllActive :: "filterState \<Rightarrow> paper \<Rightarrow> bool" where
  "satisfiesAllActive f p =
     (textMatches f p \<and> categoryMatches f p \<and> yearInRange f p \<and> methodologyMatches f p \<and>
      studyTypeMatches f p \<and> venueMatches f p \<and> citationsInRange f p)"

text \<open>A record whose year and citation count are numbers, as the data model has them.\<close>

definition numericFields :: "paper \<Rightarrow> bool" where
  "numericFields p = (year p \<noteq> None \<and> citations p \<noteq> None)"

text \<open>
  The two range predicates read as exclusions: a year, or a citation count, that is a
  number outside the range excludes the record, and one that is not a number excludes
  nothing. \<open>passesAllActive\<close> is the conjunction with the range predicates read so.
\<close>

definition yearNotOutside :: "filterState \<Rightarrow> paper \<Rightarrow> bool" where
  "yearNotOutside f p = (case year p of None \<Rightarrow> True | Some y \<Rightarrow> yearMin f \<le> y \<and> y \<le> yearMax f)"

definition citationsNotOutside :: "filterState \<Rightarrow> paper \<Rightarrow> bool" where
  "citationsNotOutside f p =
     ((case citationMin f of None \<Rightarrow> True
       | Some lo \<Rightarrow> (case citations p of None \<Rightarrow> True | Some c \<Rightarrow> lo \<le> c)) \<and>
      (case citationMax f of None \<Rightarrow> True
       | Some hi \<Rightarrow> (case citations p of None \<Rightarrow> True | Some c \<Rightarrow> c \<le> hi)))"

definition passesAllActive :: "filterState \<Rightarrow> paper \<Rightarrow> bool" where
  "passesAllActive f p =
     (textMatches f p \<and> categoryMatches f p \<and> yearNotOutside f p \<and> methodologyMatches f p \<and>
      studyTypeMatches f p \<and> venueMatches f p \<and> citationsNotOutside f p)"



text \<open>The \<open>pdfUrl\<close> of every JSON file after a deployment, by path.\<close>

definition deployedPdfUrls :: "(js_error + deployOutcome) \<times> 'net \<Rightarrow> (string \<times> string option) list" where
  "deployedPdfUrls r =
     (case fst r of Inl e \<Rightarrow> []
      | Inr outcome \<Rightarrow> map (\<lambda>(filePath, d). (filePath, doc_pdfUrl d)) (deploy_jsonFiles outcome))"

section \<open>Concrete scenarios\<close>

text \<open>The manager as its constructor leaves it, over a given store.\<close>

definition newManager :: "'db \<Rightarrow> 'db manager" where
  "newManager d =
     \<lparr>papers = [], filteredPapers = [], currentCategory = ''all'', currentSort = ''year-desc'',
      currentPage = 1, storageInitialized = False,
      filters = \<lparr>search = [], category = ''all'', yearMin = 2000, yearMax = 2024,
                 methodologies = [], studyTypes = [], venue = [],
                 citationMin = None, citationMax = None\<rparr>,
      currentEditingPaper = None, isEditMode = False, db = d, localStorage = None,
      grid = [], pagination = None, notifications = [], console = [], idsGenerated = 0\<rparr>"

definition paperA :: paper where
  "paperA =
     \<lparr>paper_id = Some (NumId 1), title = ''Touch Input on Small Screens'', authors = [''Ann Lee''],
      year = Some 2020, journal = ''CHI'', researchArea = ''Mobile Device'',
      methodology = ''Experimental'', studyType = ''Empirical'', keywords_p = [''touch''],
      citations = Some 7, hIndex = Some 2, downloads = Some 0, abstract = ''A study.'', doi = [],
      pdfUrl = ''#'', websiteUrl = ''#'', thumbnail = None, originalThumbnail = None,
      pdfFile = None, isPersistentPDF = False\<rparr>"

definition paperB :: paper where
  "paperB = paperA\<lparr>paper_id := Some (NumId 2), title := ''Broken Record'', year := Some 2010,
                    researchArea := ''General''\<rparr>"

definition paperC :: paper where
  "paperC = paperA\<lparr>paper_id := None, title := ''Gaze Typing'', year := Some 2022\<rparr>"

text \<open>An environment whose record store accepts everything and keeps nothing.\<close>

definition quietEnv :: "unit environment" where
  "quietEnv =
     \<lparr>savePaper = (\<lambda>d p f. (None, d)), saveThumbnail = (\<lambda>d i t. (None, d)),
      getPDFFile = (\<lambda>d i. Inr None), localeCompare = (\<lambda>a b. 0),
      dateNow = (\<lambda>n. 1000 + n), randomSuffix = (\<lambda>n. ''k3x9q2m1z''),
      currentYear = 2024, setItem = (\<lambda>ps. None)\<rparr>"

text \<open>
  An environment whose record store keeps the titles it saved and rejects the paper
  titled \<open>Broken Record\<close>.
\<close>

definition flakyEnv :: "string list environment" where
  "flakyEnv =
     \<lparr>savePaper = (\<lambda>d p f. if title p = ''Broken Record'' then (Some (Error ''write failed''), d)
                             else (None, d @ [title p])),
      saveThumbnail = (\<lambda>d i t. (None, d)),
      getPDFFile = (\<lambda>d i. Inr None), localeCompare = (\<lambda>a b. 0),
      dateNow = (\<lambda>n. 1000 + n), randomSuffix = (\<lambda>n. ''k3x9q2m1z''),
      currentYear = 2024, setItem = (\<lambda>ps. None)\<rparr>"

text \<open>A manager that loaded three papers from \<open>localStorage\<close> with the record store ready.\<close>

definition loadedFromFallback :: "string list manager" where
  "loadedFromFallback =
     (newManager [])\<lparr>papers := [paperA, paperB, paperC], filteredPapers := [paperA, paperB, paperC],
                      storageInitialized := True,
                      localStorage := Some [paperA, paperB, paperC]\<rparr>"

text \<open>A manager editing \<open>paperA\<close> of a collection of two, without a record store.\<close>

definition editingA :: "unit manager" where
  "editingA =
     (newManager ())\<lparr>papers := [paperA, paperB], filteredPapers := [paperA, paperB],
                      currentEditingPaper := Some paperA, isEditMode := True\<rparr>"

text \<open>The same, editing a paper whose id is in no record of the collection.\<close>

definition editingStranger :: "unit manager" where
  "editingStranger = editingA\<lparr>currentEditingPaper := Some (paperA\<lparr>paper_id := Some (NumId 9)\<rparr>)\<rparr>"

definition formWithYear :: "string \<Rightarrow> editForm" where
  "formWithYear y =
     \<lparr>edit_authors = ''Ann Lee, Bo Chen'', edit_journal = '' CHI '', edit_year = y,
      edit_researchArea = ''Mobile Device'', edit_methodology = ''Survey'',
      edit_studyType = ''Empirical'', edit_abstract = ''A study.'', edit_keywords = ''touch, input'',
      edit_citations = ''10'', edit_downloads = [], edit_doi = ''10.1/x''\<rparr>"

text \<open>A manager whose only paper came from a static data set and has the id 2.\<close>

definition loadedFromStatic :: "unit manager" where
  "loadedFromStatic =
     (newManager ())\<lparr>papers := [paperB], filteredPapers := [paperB]\<rparr>"

text \<open>The object of a JSON file with a title, authors and a year.\<close>

definition jsonRecord :: "string \<Rightarrow> jsval" where
  "jsonRecord key =
     (if key = ''title'' then JString ''Gaze Typing''
      else if key = ''authors'' then JString ''Cy Diaz; Di Evans''
      else if key = ''year'' then JNumber 2022
      else JUndefined)"

text \<open>A manager whose filter shows thirteen papers.\<close>

definition thirteenShown :: "unit manager" where
  "thirteenShown = (newManager ())\<lparr>papers := replicate 13 paperA, filteredPapers := replicate 13 paperA\<rparr>"

text \<open>A paper with a binary and a thumbnail of \<open>n\<close> characters.\<close>

definition paperWithThumbnail :: "nat \<Rightarrow> paper" where
  "paperWithThumbnail n = paperA\<lparr>thumbnail := Some (replicate n (CHR ''A'')), pdfFile := Some ''%PDF''\<rparr>"

text \<open>A manager without a record store, holding that one paper.\<close>

definition holdingThumbnail :: "nat \<Rightarrow> unit manager" where
  "holdingThumbnail n = (newManager ())\<lparr>papers := [paperWithThumbnail n]\<rparr>"

text \<open>
  A release service that counts its requests: it creates the release with the tag it
  is given, and stores every asset but \<open>p2.pdf\<close>, for which the connection fails. The
  answer for an asset names its download address and has no \<open>tag_name\<close>.
\<close>

definition releaseService :: "nat fetch" where
  "releaseService n req =
     (case req of
        CreateReleaseRequest owner repo tok info \<Rightarrow>
          (Answer True \<lparr>json_message = [], json_id = 77, json_name = info_name info,
                        json_tag_name = Some (info_tag_name info),
                        json_html_url = ''https://github.com/'' @ owner @ ''/'' @ repo @ ''/releases/tag/''
                                        @ info_tag_name info,
                        json_browser_download_url = None\<rparr>, Suc n)
      | UploadAssetRequest owner repo tok releaseId fileName fileBlob \<Rightarrow>
          if fileName = ''p2.pdf'' then (Rejected (Error ''Failed to fetch''), Suc n)
          else (Answer True \<lparr>json_message = [], json_id = int n, json_name = fileName,
                             json_tag_name = None, json_html_url = [],
                             json_browser_download_url =
                               Some (''https://github.com/'' @ owner @ ''/'' @ repo
                                     @ ''/releases/download/'' @ fileName)\<rparr>, Suc n))"

definition someUploader :: uploader where
  "someUploader = \<lparr>repoOwner = ''u'', repoName = ''r'', token = Some ''t0ken''\<rparr>"

definition assetNamed :: "string \<Rightarrow> pdfAsset" where
  "assetNamed i = \<lparr>standardFileName = i @ ''.pdf'', asset_paperId = Some (StrId i), asset_blob = ''%PDF''\<rparr>"

definition paperFile :: "string \<Rightarrow> string \<times> jsonDoc" where
  "paperFile i =
     (''data/papers/'' @ i @ ''.json'',
      \<lparr>doc_id = Some (StrId i),
       doc_pdfUrl = Some (''https://cdn.jsdelivr.net/gh/u/r@undefined/'' @ i @ ''.pdf''),
       doc_rest = []\<rparr>)"

definition someExport :: exportResult where
  "someExport =
     \<lparr>releaseInfo = \<lparr>info_tag_name = ''v1'', info_name = ''Papers'', info_body = []\<rparr>,
      pdfFiles = [assetNamed ''p1'', assetNamed ''p2''],
      jsonFiles = [(''data/index.json'', \<lparr>doc_id = None, doc_pdfUrl = None, doc_rest = []\<rparr>),
                   paperFile ''p1'', paperFile ''p2'', paperFile ''p3'']\<rparr>"

text \<open>
  A manager showing two papers while the search box holds \<open>Touch INPUT\<close> and the
  category Mobile Device is chosen.
\<close>

definition searchingTouch :: "unit manager" where
  "searchingTouch =
     (newManager ())\<lparr>papers := [paperA, paperB],
                      filters := (filters (newManager ()))\<lparr>search := toLowerCase ''Touch INPUT'',
                                                            category := ''Mobile Device''\<rparr>\<rparr>"

text \<open>A manager that loaded from \<open>localStorage\<close> only the paper that the store rejects.\<close>

definition loadedOnlyBroken :: "string list manager" where
  "loadedOnlyBroken =
     (newManager [])\<lparr>papers := [paperB], filteredPapers := [paperB], storageInitialized := True,
                      localStorage := Some [paperB]\<rparr>"

text \<open>
  The object of a JSON file whose year is the text \<open>n/a\<close>, and the manager as constructed
  after that file has been added.
\<close>

definition jsonUndated :: "string \<Rightarrow> jsval" where
  "jsonUndated key =
     (if key = ''title'' then JString ''Gaze Typing''
      else if key = ''authors'' then JString ''Cy Diaz''
      else if key = ''year'' then JString ''n/a''
      else JUndefined)"

definition uploadedUndated :: "unit manager" where
  "uploadedUndated = snd (processJsonFile quietEnv jsonUndated ''auto'' (newManager ()))"

text \<open>The tag of the release that a deployment created.\<close>

definition deployedTag :: "(js_error + deployOutcome) \<times> 'net \<Rightarrow> string option" where
  "deployedTag r =
     (case fst r of Inl e \<Rightarrow> None | Inr outcome \<Rightarrow> json_tag_name (deploy_release outcome))"

section \<open>Pagination\<close>

lemma grid_updatePagination: "grid (updatePagination s) = grid s"
  by (simp add: updatePagination_def Let_def)

lemma currentPage_updatePagination: "currentPage (updatePagination s) = currentPage s"
  by (simp add: updatePagination_def Let_def)

lemma slice_page:
  assumes "0 \<le> start"
  shows "slice xs start (min (start + 12) (int (length xs))) = take 12 (drop (nat start) xs)"
proof (cases "start \<le> int (length xs)")
  case True
  have "take (nat (min (start + 12) (int (length xs)) - start)) (drop (nat start) xs)
        = take 12 (drop (nat start) xs)"
  proof (cases "start + 12 \<le> int (length xs)")
    case True
    then show ?thesis by (simp add: min_def)
  next
    case False
    with \<open>start \<le> int (length xs)\<close> assms
    have "length (drop (nat start) xs) \<le> nat (int (length xs) - start)" by simp
    with False assms show ?thesis by (simp add: min_def)
  qed
  with True assms show ?thesis
    by (auto simp: slice_def Let_def min_def max_def)
next
  case False
  with assms show ?thesis by (simp add: slice_def Let_def min_def max_def)
qed

lemma grid_goToPage:
  assumes "1 \<le> page"
  shows "grid (goToPage page s) = take 12 (drop (nat ((page - 1) * 12)) (filteredPapers s))"
  using assms slice_page [of "(page - 1) * 12" "filteredPapers s"]
  by (simp add: goToPage_def grid_updatePagination renderPapersGrid_def Let_def papersPerPage_def)

lemma totalPages_ceiling: "totalPages s = \<lceil>real (length (filteredPapers s)) / 12\<rceil>"
  unfolding totalPages_def papersPerPage_def by linarith

lemma page_empty_iff:
  assumes "1 \<le> page"
  shows "take 12 (drop (nat ((page - 1) * 12)) xs) = [] \<longleftrightarrow> - ((- int (length xs)) div 12) < page"
  using assms by auto

lemma pageInfo_goToPage:
  assumes "1 < totalPages s"
  shows "map_option pageInfo (pagination (goToPage page s)) = Some (page, totalPages s)"
  using assms
  by (simp add: goToPage_def updatePagination_def Let_def renderPapersGrid_def totalPages_def)

text \<open>
  Claim C9, as stated, fails: a request beyond the last page is not clamped. With
  thirteen papers shown there are two pages; \<open>goToPage 3\<close> keeps 3 as the current page
  and presents no paper, while the last page holds one.
\<close>

theorem goToPage_beyond_last_page_counterexample:
  "totalPages thirteenShown = 2 \<and> currentPage (goToPage 3 thirteenShown) = 3 \<and>
   grid (goToPage 3 thirteenShown) = [] \<and> grid (goToPage 2 thirteenShown) = [paperA]"
proof -
  have "totalPages thirteenShown = 2"
    by (simp add: totalPages_def papersPerPage_def thirteenShown_def newManager_def)
  moreover have "currentPage (goToPage 3 thirteenShown) = 3"
    by (simp add: goToPage_def currentPage_updatePagination renderPapersGrid_def Let_def)
  moreover have "grid (goToPage 3 thirteenShown) = []"
    by (simp add: grid_goToPage thirteenShown_def newManager_def)
  moreover have "grid (goToPage 2 thirteenShown) = [paperA]"
    by (simp add: grid_goToPage thirteenShown_def newManager_def)
  ultimately show ?thesis by simp
qed

text \<open>
  Claim C9, amended: pages have twelve papers and the requested page is taken as it is.
  For a request \<open>page \<ge> 1\<close>, \<open>goToPage\<close> makes it the current page and presents the papers
  from position \<open>(page - 1) * 12\<close> on, at most twelve; that page is empty exactly when the
  request lies beyond the last page; the number of pages is \<open>ceil(count / 12)\<close>, and it is
  shown beside the requested page whenever there is more than one page.
\<close>

theorem goToPage_presents_requested_page:
  assumes "1 \<le> page"
  shows "currentPage (goToPage page s) = page \<and>
         grid (goToPage page s) = take 12 (drop (nat ((page - 1) * 12)) (filteredPapers s)) \<and>
         (grid (goToPage page s) = [] \<longleftrightarrow> totalPages s < page) \<and>
         totalPages s = \<lceil>real (length (filteredPapers s)) / 12\<rceil> \<and>
         (1 < totalPages s \<longrightarrow>
            map_option pageInfo (pagination (goToPage page s)) = Some (page, totalPages s))"
proof -
  have "currentPage (goToPage page s) = page"
    by (simp add: goToPage_def currentPage_updatePagination renderPapersGrid_def Let_def)
  moreover have "grid (goToPage page s) = [] \<longleftrightarrow> totalPages s < page"
    using page_empty_iff [OF assms, of "filteredPapers s"]
    by (simp add: grid_goToPage [OF assms] totalPages_def papersPerPage_def)
  ultimately show ?thesis
    using grid_goToPage [OF assms] totalPages_ceiling pageInfo_goToPage by blast
qed

theorem goToPage_presents_requested_page_witness:
  "(1::int) \<le> 2 \<and> grid (goToPage 2 thirteenShown) = [paperA] \<and>
   map_option pageInfo (pagination (goToPage 2 thirteenShown)) = Some (2, 2)"
proof -
  have "totalPages thirteenShown = 2"
    by (simp add: totalPages_def papersPerPage_def thirteenShown_def newManager_def)
  moreover have "take 12 (drop 12 (filteredPapers thirteenShown)) = [paperA]"
    by (simp add: thirteenShown_def newManager_def)
  moreover have h: "(1::int) \<le> 2" by simp
  moreover from goToPage_presents_requested_page [OF h, of thirteenShown]
  have "grid (goToPage 2 thirteenShown)
          = take 12 (drop (nat ((2 - 1) * 12)) (filteredPapers thirteenShown))"
    and "1 < totalPages thirteenShown \<longrightarrow>
          map_option pageInfo (pagination (goToPage 2 thirteenShown))
            = Some (2, totalPages thirteenShown)"
    by blast+
  ultimately show ?thesis by simp
qed

section \<open>The payload for localStorage\<close>

lemma stripForLocalStorage_pdfFile: "pdfFile (stripForLocalStorage p) = None"
  by (simp add: stripForLocalStorage_def)

lemma stripForLocalStorage_thumbnail:
  "thumbnail p = Some t \<Longrightarrow>
     thumbnail (stripForLocalStorage p) = (if 0 < length t \<and> length t < 50000 then Some t else None)"
  by (simp add: stripForLocalStorage_def)

lemma stripForLocalStorage_no_thumbnail:
  "thumbnail p = None \<Longrightarrow> thumbnail (stripForLocalStorage p) = None"
  by (simp add: stripForLocalStorage_def)

lemma stripForLocalStorage_rest:
  "stripForLocalStorage p = p\<lparr>pdfFile := None, thumbnail := thumbnail (stripForLocalStorage p)\<rparr>"
  by (simp add: stripForLocalStorage_def)

text \<open>
  Claim C5, as stated, fails at the threshold: a thumbnail of exactly 50000 characters
  is not kept in the payload that \<open>saveData\<close> writes to \<open>localStorage\<close>.
\<close>

theorem saveData_thumbnail_50000_counterexample:
  "map_option length (thumbnail (paperWithThumbnail 50000)) = Some 50000 \<and>
   map_option (map thumbnail) (localStorage (snd (saveData quietEnv (holdingThumbnail 50000))))
     = Some [None]"
  by (simp add: saveData_def papersToSave_def stripForLocalStorage_def holdingThumbnail_def
      paperWithThumbnail_def newManager_def quietEnv_def)

text \<open>
  Claim C5, amended: when the record store is not in use and \<open>localStorage\<close> accepts the
  payload, \<open>saveData\<close> writes one record for each paper, in order, the same but for two
  fields: the binary payload is absent, and the thumbnail is kept exactly when it is
  present, not empty and shorter than 50000 characters, and is absent otherwise (so one of
  exactly 50000 characters is dropped).
\<close>

theorem saveData_fallback_payload:
  assumes "\<not> storageInitialized s" and "setItem env (papersToSave (papers s)) = None"
  shows "localStorage (snd (saveData env s)) = Some (papersToSave (papers s)) \<and>
         length (papersToSave (papers s)) = length (papers s) \<and>
         (\<forall>i < length (papers s).
            pdfFile (papersToSave (papers s) ! i) = None \<and>
            thumbnail (papersToSave (papers s) ! i) =
              (case thumbnail (papers s ! i) of
                 None \<Rightarrow> None
               | Some t \<Rightarrow> if 0 < length t \<and> length t < 50000 then Some t else None) \<and>
            papersToSave (papers s) ! i =
              (papers s ! i)\<lparr>pdfFile := None, thumbnail := thumbnail (papersToSave (papers s) ! i)\<rparr>)"
proof -
  have "localStorage (snd (saveData env s)) = Some (papersToSave (papers s))"
    using assms by (simp add: saveData_def)
  moreover have "\<forall>i < length (papers s).
            pdfFile (papersToSave (papers s) ! i) = None \<and>
            thumbnail (papersToSave (papers s) ! i) =
              (case thumbnail (papers s ! i) of
                 None \<Rightarrow> None
               | Some t \<Rightarrow> if 0 < length t \<and> length t < 50000 then Some t else None) \<and>
            papersToSave (papers s) ! i =
              (papers s ! i)\<lparr>pdfFile := None, thumbnail := thumbnail (papersToSave (papers s) ! i)\<rparr>"
  proof (intro allI impI)
    fix i assume "i < length (papers s)"
    then have "papersToSave (papers s) ! i = stripForLocalStorage (papers s ! i)"
      by (simp add: papersToSave_def)
    then show "pdfFile (papersToSave (papers s) ! i) = None \<and>
            thumbnail (papersToSave (papers s) ! i) =
              (case thumbnail (papers s ! i) of
                 None \<Rightarrow> None
               | Some t \<Rightarrow> if 0 < length t \<and> length t < 50000 then Some t else None) \<and>
            papersToSave (papers s) ! i =
              (papers s ! i)\<lparr>pdfFile := None, thumbnail := thumbnail (papersToSave (papers s) ! i)\<rparr>"
      using stripForLocalStorage_rest [of "papers s ! i"]
      by (simp add: stripForLocalStorage_pdfFile stripForLocalStorage_thumbnail
          stripForLocalStorage_no_thumbnail split: option.splits)
  qed
  moreover have "length (papersToSave (papers s)) = length (papers s)"
    by (simp add: papersToSave_def)
  ultimately show ?thesis by blast
qed

theorem saveData_fallback_payload_witness:
  "\<not> storageInitialized (holdingThumbnail 49999) \<and>
   localStorage (snd (saveData quietEnv (holdingThumbnail 49999)))
     = Some [(paperWithThumbnail 49999)\<lparr>pdfFile := None\<rparr>]"
  using saveData_fallback_payload [of "holdingThumbnail 49999" quietEnv]
  by (simp add: papersToSave_def stripForLocalStorage_def holdingThumbnail_def
      paperWithThumbnail_def newManager_def quietEnv_def)

section \<open>Editing\<close>

lemma papers_updatePagination: "papers (updatePagination s) = papers s"
  by (simp add: updatePagination_def Let_def)

lemma notifications_updatePagination: "notifications (updatePagination s) = notifications s"
  by (simp add: updatePagination_def Let_def)

lemma filteredPapers_updatePagination: "filteredPapers (updatePagination s) = filteredPapers s"
  by (simp add: updatePagination_def Let_def)

lemma papers_applyFilters: "papers (applyFilters env s) = papers s"
  by (simp add: applyFilters_def Let_def papers_updatePagination renderPapersGrid_def sortPapers_def)

lemma notifications_applyFilters: "notifications (applyFilters env s) = notifications s"
  by (simp add: applyFilters_def Let_def notifications_updatePagination renderPapersGrid_def
      sortPapers_def)

lemma withoutId_ensureId: "withoutId (fst (ensureId env n p)) = withoutId p"
  by (simp add: ensureId_def withoutId_def)

lemma processed_saveStep:
  "map withoutId (processed (saveStep env b p)) = map withoutId (processed b) @ [withoutId p]"
  using withoutId_ensureId [of env "ids b" p]
  by (auto simp: saveStep_def batchOk_def batchFailed_def split: prod.splits option.splits)

lemma processed_saveLoop:
  "map withoutId (processed (foldl (saveStep env) b ps))
     = map withoutId (processed b) @ map withoutId ps"
  by (induction ps arbitrary: b) (simp_all add: processed_saveStep)

lemma papers_saveData: "map withoutId (papers (snd (saveData env s))) = map withoutId (papers s)"
  by (auto simp: saveData_def Let_def processed_saveLoop startBatch_def showNotification_def
      split: option.splits js_error.splits)

lemma findIndex_Some: "findIndex P xs = Some i \<Longrightarrow> i < length xs \<and> P (xs ! i)"
proof (induction xs arbitrary: i)
  case Nil
  then show ?case by simp
next
  case (Cons x xs)
  then show ?case by (auto split: if_splits)
qed

lemma findIndex_None: "findIndex P xs = None \<Longrightarrow> \<forall>x \<in> set xs. \<not> P x"
  by (induction xs) (auto split: if_splits)

lemma savePaperDetails_rejected:
  assumes "currentEditingPaper s = Some cur" and "failsPolicy form"
  shows "\<exists>msg. savePaperDetails env form s = showNotification msg ''error'' s"
  using assms
  by (auto simp: savePaperDetails_def failsPolicy_def Let_def editedPaper_def numLess_def
      split: option.splits)

lemma policy_year:
  assumes "\<not> failsPolicy form"
  obtains y where "parseInt (edit_year form) = Some y" "1900 \<le> y" "y \<le> 2030"
  using assms by (auto simp: failsPolicy_def split: option.splits)

lemma savePaperDetails_accepted:
  assumes cur: "currentEditingPaper s = Some cur" and ok: "\<not> failsPolicy form"
    and idx: "findIndex (\<lambda>p. paper_id p = paper_id cur) (papers s) = Some i"
  shows "map withoutId (papers (savePaperDetails env form s))
           = (map withoutId (papers s))[i := withoutId (acceptedEdit cur form)]"
    and "last (notifications (savePaperDetails env form s))
           = (''Paper information saved successfully!'', ''success'')"
proof -
  from ok obtain y where y: "parseInt (edit_year form) = Some y" "1900 \<le> y" "y \<le> 2030"
    by (rule policy_year)
  from ok have a: "commaList (edit_authors form) \<noteq> []" and j: "trim (edit_journal form) \<noteq> []"
    by (auto simp: failsPolicy_def)
  define s1 where "s1 = s\<lparr>papers := (papers s)[i := acceptedEdit cur form],
                           currentEditingPaper := Some (acceptedEdit cur form)\<rparr>"
  define s2 where "s2 = snd (saveData env s1)"
  have eq: "savePaperDetails env form s =
        showNotification ''Paper information saved successfully!'' ''success''
          ((applyFilters env (s2\<lparr>currentEditingPaper := Some (papers s2 ! i)\<rparr>))\<lparr>isEditMode := False\<rparr>)"
    using cur y a j idx
    by (simp add: savePaperDetails_def Let_def editedPaper_def numLess_def acceptedEdit_def
        s1_def s2_def)
  have "map withoutId (papers s2) = map withoutId (papers s1)"
    unfolding s2_def by (rule papers_saveData)
  then show "map withoutId (papers (savePaperDetails env form s))
           = (map withoutId (papers s))[i := withoutId (acceptedEdit cur form)]"
    by (simp add: eq showNotification_def papers_applyFilters s1_def map_update)
  show "last (notifications (savePaperDetails env form s))
           = (''Paper information saved successfully!'', ''success'')"
    by (simp add: eq showNotification_def)
qed

lemma stored_edit:
  assumes "map withoutId xs = (map withoutId ys)[i := withoutId e]" and "i < length ys"
  shows "withoutId (xs ! i) = withoutId e"
proof -
  have "length xs = length ys"
    using assms(1) by (metis length_list_update length_map)
  with assms have "map withoutId xs ! i = withoutId e" by simp
  with assms(2) \<open>length xs = length ys\<close> show ?thesis by simp
qed

lemma withoutId_fields:
  assumes "withoutId p = withoutId q"
  shows "year p = year q" and "citations p = citations q" and "hIndex p = hIndex q"
proof -
  have "year (withoutId p) = year (withoutId q)" "citations (withoutId p) = citations (withoutId q)"
    "hIndex (withoutId p) = hIndex (withoutId q)"
    using assms by simp_all
  then show "year p = year q" and "citations p = citations q" and "hIndex p = hIndex q"
    by (simp_all add: withoutId_def)
qed

lemma savePaperDetails_missing:
  assumes cur: "currentEditingPaper s = Some cur" and ok: "\<not> failsPolicy form"
    and idx: "findIndex (\<lambda>p. paper_id p = paper_id cur) (papers s) = None"
  shows "savePaperDetails env form s = s"
proof -
  from ok obtain y where y: "parseInt (edit_year form) = Some y" "1900 \<le> y" "y \<le> 2030"
    by (rule policy_year)
  from ok have a: "commaList (edit_authors form) \<noteq> []" and j: "trim (edit_journal form) \<noteq> []"
    by (auto simp: failsPolicy_def)
  show ?thesis
    using cur y a j idx
    by (simp add: savePaperDetails_def Let_def editedPaper_def numLess_def)
qed

lemma parseInt_1899: "parseInt ''1899'' = Some 1899"
  by code_simp

lemma parseInt_1900: "parseInt ''1900'' = Some 1900"
  by code_simp

lemma parseInt_2030: "parseInt ''2030'' = Some 2030"
  by code_simp

lemma parseInt_empty: "parseInt [] = None"
  by code_simp

text \<open>
  Claim C1: an edit of a record of the collection whose fields break the required-field
  policy (no author, no venue, no year, or a year outside 1900 to 2030) is answered by an
  error notification and changes nothing else, the collection included; an edit that
  keeps the policy replaces the record and reports success. A year of 1899 is rejected;
  1900 and 2030, with authors and venue given, are accepted and stored.
\<close>

theorem savePaperDetails_validation:
  assumes cur: "currentEditingPaper s = Some cur"
    and idx: "findIndex (\<lambda>p. paper_id p = paper_id cur) (papers s) = Some i"
  shows "(failsPolicy form \<longrightarrow>
            (\<exists>msg. savePaperDetails env form s = showNotification msg ''error'' s) \<and>
            papers (savePaperDetails env form s) = papers s) \<and>
         (\<not> failsPolicy form \<longrightarrow>
            map withoutId (papers (savePaperDetails env form s))
              = (map withoutId (papers s))[i := withoutId (acceptedEdit cur form)] \<and>
            year (papers (savePaperDetails env form s) ! i) = parseInt (edit_year form) \<and>
            last (notifications (savePaperDetails env form s))
              = (''Paper information saved successfully!'', ''success'')) \<and>
         (edit_year form = [] \<or> edit_year form = ''1899'' \<longrightarrow> failsPolicy form) \<and>
         (commaList (edit_authors form) \<noteq> [] \<and> trim (edit_journal form) \<noteq> [] \<and>
          (edit_year form = ''1900'' \<or> edit_year form = ''2030'') \<longrightarrow> \<not> failsPolicy form)"
proof (intro conjI impI)
  assume bad: "failsPolicy form"
  from savePaperDetails_rejected [OF cur bad]
  show "\<exists>msg. savePaperDetails env form s = showNotification msg ''error'' s" .
  then show "papers (savePaperDetails env form s) = papers s"
    by (auto simp: showNotification_def)
next
  assume ok: "\<not> failsPolicy form"
  note acc = savePaperDetails_accepted [OF cur ok idx]
  show "map withoutId (papers (savePaperDetails env form s))
              = (map withoutId (papers s))[i := withoutId (acceptedEdit cur form)]"
    by (rule acc(1))
  show "last (notifications (savePaperDetails env form s))
              = (''Paper information saved successfully!'', ''success'')"
    by (rule acc(2))
  from findIndex_Some [OF idx] have "i < length (papers s)" by simp
  from stored_edit [OF acc(1) this]
  have "year (papers (savePaperDetails env form s) ! i) = year (acceptedEdit cur form)"
    by (rule withoutId_fields)
  then show "year (papers (savePaperDetails env form s) ! i) = parseInt (edit_year form)"
    by (simp add: acceptedEdit_def editedPaper_def)
next
  assume "edit_year form = [] \<or> edit_year form = ''1899''"
  then show "failsPolicy form"
    by (auto simp: failsPolicy_def parseInt_empty parseInt_1899)
next
  assume "commaList (edit_authors form) \<noteq> [] \<and> trim (edit_journal form) \<noteq> [] \<and>
          (edit_year form = ''1900'' \<or> edit_year form = ''2030'')"
  then show "\<not> failsPolicy form"
    by (auto simp: failsPolicy_def parseInt_1900 parseInt_2030)
qed

lemma formWithYear_fields:
  "commaList (edit_authors (formWithYear y)) = [''Ann Lee'', ''Bo Chen'']"
  "trim (edit_journal (formWithYear y)) = ''CHI''"
  "edit_year (formWithYear y) = y"
  "orZero (parseInt (edit_citations (formWithYear y))) = 10"
  by (simp add: formWithYear_def, code_simp)+

lemma editingA_target:
  "currentEditingPaper editingA = Some paperA"
  "findIndex (\<lambda>p. paper_id p = paper_id paperA) (papers editingA) = Some 0"
  by (simp_all add: editingA_def newManager_def)

theorem savePaperDetails_validation_witness:
  "papers (savePaperDetails quietEnv (formWithYear ''1899'') editingA) = papers editingA \<and>
   year (papers (savePaperDetails quietEnv (formWithYear ''1900'') editingA) ! 0) = Some 1900 \<and>
   year (papers (savePaperDetails quietEnv (formWithYear ''2030'') editingA) ! 0) = Some 2030"
  using savePaperDetails_validation [OF editingA_target, of "formWithYear ''1899''" quietEnv]
    savePaperDetails_validation [OF editingA_target, of "formWithYear ''1900''" quietEnv]
    savePaperDetails_validation [OF editingA_target, of "formWithYear ''2030''" quietEnv]
  by (simp add: formWithYear_fields parseInt_1900 parseInt_2030)

text \<open>
  Claim C3: after every successful edit the stored record carries the citation count
  of the edit and an \<open>hIndex\<close> equal to \<open>floor(citations / 3)\<close> of that count. The count is
  taken to be a safe integer (below \<open>2^53\<close> in magnitude): there the program's numbers
  are the integers of this theory, and its \<open>Math.floor(citations / 3)\<close> is the integer
  quotient. For a count beyond, the program stores a rounded count and the floor of a
  rounded quotient, of which nothing is said here.
\<close>

theorem savePaperDetails_hIndex:
  assumes cur: "currentEditingPaper s = Some cur" and ok: "\<not> failsPolicy form"
    and idx: "findIndex (\<lambda>p. paper_id p = paper_id cur) (papers s) = Some i"
    and safe: "safeInteger (orZero (parseInt (edit_citations form)))"
  shows "citations (papers (savePaperDetails env form s) ! i)
           = Some (orZero (parseInt (edit_citations form))) \<and>
         hIndex (papers (savePaperDetails env form s) ! i)
           = Some \<lfloor>real_of_int (orZero (parseInt (edit_citations form))) / 3\<rfloor> \<and>
         hIndex (papers (savePaperDetails env form s) ! i)
           = Some (orZero (parseInt (edit_citations form)) div 3)"
proof -
  from findIndex_Some [OF idx] have "i < length (papers s)" by simp
  from stored_edit [OF savePaperDetails_accepted(1) [OF cur ok idx] this]
  have same: "withoutId (papers (savePaperDetails env form s) ! i) = withoutId (acceptedEdit cur form)" .
  have "citations (papers (savePaperDetails env form s) ! i) = citations (acceptedEdit cur form)"
    and "hIndex (papers (savePaperDetails env form s) ! i) = hIndex (acceptedEdit cur form)"
    using withoutId_fields [OF same] by simp_all
  moreover have "\<lfloor>real_of_int k / 3\<rfloor> = k div 3" for k :: int
    using floor_divide_of_int_eq [of k 3, where ?'a = real] by simp
  ultimately show ?thesis
    by (simp add: acceptedEdit_def editedPaper_def floorThird_def)
qed

theorem savePaperDetails_hIndex_witness:
  "safeInteger 10 \<and>
   citations (papers (savePaperDetails quietEnv (formWithYear ''2030'') editingA) ! 0) = Some 10 \<and>
   hIndex (papers (savePaperDetails quietEnv (formWithYear ''2030'') editingA) ! 0) = Some 3"
proof -
  have ok: "\<not> failsPolicy (formWithYear ''2030'')"
    by (simp add: failsPolicy_def formWithYear_fields parseInt_2030)
  have safe: "safeInteger (orZero (parseInt (edit_citations (formWithYear ''2030''))))"
    by (simp add: formWithYear_fields safeInteger_def)
  from savePaperDetails_hIndex [OF editingA_target(1) ok editingA_target(2) safe, of quietEnv]
  show ?thesis by (simp add: formWithYear_fields safeInteger_def)
qed

text \<open>
  Claim C10: an edit whose fields keep the policy but whose target id is carried by no
  record of the collection does nothing at all: the whole state (collection, stores,
  filter results, notifications) stays as it was.
\<close>

theorem savePaperDetails_unknown_target:
  assumes "currentEditingPaper s = Some cur" and "\<not> failsPolicy form"
    and "findIndex (\<lambda>p. paper_id p = paper_id cur) (papers s) = None"
  shows "savePaperDetails env form s = s"
  using assms by (rule savePaperDetails_missing)

theorem savePaperDetails_unknown_target_witness:
  "currentEditingPaper editingStranger = Some (paperA\<lparr>paper_id := Some (NumId 9)\<rparr>) \<and>
   savePaperDetails quietEnv (formWithYear ''2030'') editingStranger = editingStranger"
proof -
  have c: "currentEditingPaper editingStranger = Some (paperA\<lparr>paper_id := Some (NumId 9)\<rparr>)"
    by (simp add: editingStranger_def)
  have ok: "\<not> failsPolicy (formWithYear ''2030'')"
    by (simp add: failsPolicy_def formWithYear_fields parseInt_2030)
  have none: "findIndex (\<lambda>p. paper_id p = paper_id (paperA\<lparr>paper_id := Some (NumId 9)\<rparr>))
                (papers editingStranger) = None"
    by (simp add: editingStranger_def editingA_def newManager_def paperA_def paperB_def)
  from savePaperDetails_unknown_target [OF c ok none, of quietEnv] c show ?thesis by simp
qed

section \<open>Filtering\<close>

lemma mset_insertBy: "mset (insertBy cmp x xs) = add_mset x (mset xs)"
  by (induction xs) auto

lemma mset_sortBy: "mset (sortBy cmp xs) = mset xs"
  by (induction xs) (auto simp: sortBy_def mset_insertBy)

lemma filteredPapers_applyFilters:
  "filteredPapers (applyFilters env s) =
     sortBy (comparePapers (localeCompare env) (currentSort s))
       (filter (keepsPaper (filters s)) (papers s))"
  by (simp add: applyFilters_def Let_def filteredPapers_updatePagination renderPapersGrid_def
      sortPapers_def)

lemma toLowerChar_idem: "toLowerChar (toLowerChar c) = toLowerChar c"
  by (auto simp: toLowerChar_def Let_def)

lemma toLowerCase_idem: "toLowerCase (toLowerCase s) = toLowerCase s"
  by (simp add: toLowerCase_def toLowerChar_idem)

lemma keepsPaper_passes:
  assumes "search f = toLowerCase q"
  shows "keepsPaper f p = passesAllActive f p"
proof -
  have "toLowerCase (search f) = search f"
    using assms by (simp add: toLowerCase_idem)
  then show ?thesis
    by (auto simp: keepsPaper_def passesAllActive_def textMatches_def categoryMatches_def
        yearNotOutside_def methodologyMatches_def studyTypeMatches_def venueMatches_def
        citationsNotOutside_def searchIn_def searchedText_def numLess_def split: option.splits)
qed

lemma passesAllActive_numeric:
  assumes "numericFields p"
  shows "passesAllActive f p = satisfiesAllActive f p"
proof -
  from assms obtain y c where "year p = Some y" "citations p = Some c"
    by (auto simp: numericFields_def)
  then show ?thesis
    by (simp add: passesAllActive_def satisfiesAllActive_def yearNotOutside_def yearInRange_def
        citationsNotOutside_def citationsInRange_def cong: option.case_cong)
qed

lemma passesAllActive_lower:
  "passesAllActive (f\<lparr>search := toLowerCase q\<rparr>) p = passesAllActive (f\<lparr>search := q\<rparr>) p"
proof -
  have "textMatches (f\<lparr>search := toLowerCase q\<rparr>) p = textMatches (f\<lparr>search := q\<rparr>) p"
    by (simp add: textMatches_def toLowerCase_idem) (simp add: toLowerCase_def)
  then show ?thesis
    by (simp add: passesAllActive_def categoryMatches_def yearNotOutside_def
        methodologyMatches_def studyTypeMatches_def venueMatches_def citationsNotOutside_def
        cong: option.case_cong)
qed

lemma uploadedUndated_facts:
  "map title (papers uploadedUndated) = [''Gaze Typing'']"
  "map year (papers uploadedUndated) = [None]"
  "yearMin (filters uploadedUndated) = 2000"
  "yearMax (filters uploadedUndated) = 2024"
  "search (filters uploadedUndated) = []"
  "filter (satisfiesAllActive (filters uploadedUndated)) (papers uploadedUndated) = []"
  "length (papers uploadedUndated) = 1"
  "filter (passesAllActive (filters uploadedUndated)) (papers uploadedUndated) = papers uploadedUndated"
  by code_simp+

text \<open>
  Claim C4, as stated, fails for a record whose year is not a number. A JSON file with
  the year \<open>n/a\<close> is added to an empty collection: \<open>normalizepaperData\<close> stores
  \<open>parseInt('n/a')\<close>, which is \<open>NaN\<close>. The filter state is the constructor's, with the
  year range 2000 to 2024. The record does not satisfy the year predicate, so no record
  satisfies the conjunction; but \<open>NaN < 2000\<close> and \<open>NaN > 2024\<close> are both false, and
  \<open>applyFilters\<close> returns the record.
\<close>

theorem applyFilters_keeps_undated_counterexample:
  "map title (papers uploadedUndated) = [''Gaze Typing''] \<and>
   map year (papers uploadedUndated) = [None] \<and>
   yearMin (filters uploadedUndated) = 2000 \<and> yearMax (filters uploadedUndated) = 2024 \<and>
   filteredPapers (applyFilters quietEnv uploadedUndated) = papers uploadedUndated \<and>
   filter (satisfiesAllActive (filters uploadedUndated)) (papers uploadedUndated) = []"
proof -
  have "length (papers uploadedUndated) = 1" by (rule uploadedUndated_facts)
  then obtain p where p: "papers uploadedUndated = [p]"
    by (cases "papers uploadedUndated") auto
  with uploadedUndated_facts(2) have "year p = None" by simp
  moreover have "search (filters uploadedUndated) = []"
    "category (filters uploadedUndated) = ''all''"
    "methodologies (filters uploadedUndated) = []" "studyTypes (filters uploadedUndated) = []"
    "venue (filters uploadedUndated) = []"
    "citationMin (filters uploadedUndated) = None" "citationMax (filters uploadedUndated) = None"
    by code_simp+
  ultimately have "keepsPaper (filters uploadedUndated) p"
    by (simp add: keepsPaper_def numLess_def)
  then have "filteredPapers (applyFilters quietEnv uploadedUndated) = papers uploadedUndated"
    by (simp add: filteredPapers_applyFilters p sortBy_def)
  then show ?thesis by (simp add: uploadedUndated_facts)
qed

text \<open>
  Claim C4, amended: for every collection, and every filter state whose query is the
  lower-cased text of the search box (as its listener stores it), \<open>applyFilters\<close> shows
  exactly the records that pass all active predicates together: text (without regard to
  case, in title, authors, abstract and keywords joined by blanks), category, year range,
  methodology set, study-type set, venue and citation range, where a range excludes a
  record whose year (or citation count) is a number outside it, bounds included in the
  range, and does not exclude a record whose year (or citation count) is not a number.
  Where every record carries a numeric year and citation count, these are exactly the
  records that satisfy the conjunction of the predicates as the claim has them. Each
  record is shown as often as the collection holds it, and the collection itself is left
  as it was. The same holds when the query \<open>q\<close> is typed into the search box. The order
  of the records shown is not part of the claim.
\<close>

theorem applyFilters_conjunction:
  assumes "search (filters s) = toLowerCase q"
  shows "mset (filteredPapers (applyFilters env s))
           = mset (filter (passesAllActive (filters s)) (papers s)) \<and>
         ((\<forall>p \<in> set (papers s). numericFields p) \<longrightarrow>
            mset (filteredPapers (applyFilters env s))
              = mset (filter (satisfiesAllActive (filters s)) (papers s))) \<and>
         papers (applyFilters env s) = papers s \<and>
         mset (filteredPapers (onSearchInput env q s))
           = mset (filter (passesAllActive ((filters s)\<lparr>search := q\<rparr>)) (papers s)) \<and>
         papers (onSearchInput env q s) = papers s"
proof -
  have sel: "filter (keepsPaper f) (papers s) = filter (passesAllActive f) (papers s)"
    if "search f = toLowerCase q'" for f q'
    using that by (intro filter_cong refl keepsPaper_passes) auto
  have one: "mset (filteredPapers (applyFilters env s))
           = mset (filter (passesAllActive (filters s)) (papers s))"
    by (simp add: filteredPapers_applyFilters sel [OF assms] mset_sortBy)
  have num: "filter (passesAllActive (filters s)) (papers s)
           = filter (satisfiesAllActive (filters s)) (papers s)"
    if "\<forall>p \<in> set (papers s). numericFields p"
    using that by (intro filter_cong refl passesAllActive_numeric) auto
  have "mset (filteredPapers (onSearchInput env q s))
           = mset (filter (passesAllActive ((filters s)\<lparr>search := toLowerCase q\<rparr>)) (papers s))"
    by (simp add: onSearchInput_def filteredPapers_applyFilters mset_sortBy
        sel [of "(filters s)\<lparr>search := toLowerCase q\<rparr>" q])
  then have two: "mset (filteredPapers (onSearchInput env q s))
           = mset (filter (passesAllActive ((filters s)\<lparr>search := q\<rparr>)) (papers s))"
    by (simp add: passesAllActive_lower)
  have three: "(\<forall>p \<in> set (papers s). numericFields p) \<longrightarrow>
            mset (filteredPapers (applyFilters env s))
              = mset (filter (satisfiesAllActive (filters s)) (papers s))"
  proof
    assume "\<forall>p \<in> set (papers s). numericFields p"
    from num [OF this] one show "mset (filteredPapers (applyFilters env s))
              = mset (filter (satisfiesAllActive (filters s)) (papers s))"
      by (simp only:)
  qed
  have four: "papers (applyFilters env s) = papers s"
    by (simp add: papers_applyFilters)
  have five: "papers (onSearchInput env q s) = papers s"
    by (simp add: onSearchInput_def papers_applyFilters)
  from one three four two five show ?thesis
    by (intro conjI)
qed

lemma searchingTouch_query: "search (filters searchingTouch) = toLowerCase ''Touch INPUT''"
  by (simp add: searchingTouch_def newManager_def)

lemma searchingTouch_numeric: "\<forall>p \<in> set (papers searchingTouch). numericFields p"
  by (simp add: searchingTouch_def newManager_def numericFields_def paperA_def paperB_def)

lemma searchingTouch_selection:
  "satisfiesAllActive (filters searchingTouch) paperA"
  "\<not> satisfiesAllActive (filters searchingTouch) paperB"
  by code_simp+

lemma uploadedUndated_query: "search (filters uploadedUndated) = toLowerCase []"
  by (simp add: uploadedUndated_facts toLowerCase_def)

theorem applyFilters_conjunction_witness:
  "mset (filteredPapers (applyFilters quietEnv searchingTouch)) = {#paperA#} \<and>
   papers (applyFilters quietEnv searchingTouch) = [paperA, paperB] \<and>
   mset (filteredPapers (applyFilters quietEnv uploadedUndated)) = mset (papers uploadedUndated)"
proof -
  from applyFilters_conjunction [OF searchingTouch_query, of quietEnv] searchingTouch_numeric
  have "mset (filteredPapers (applyFilters quietEnv searchingTouch))
           = mset (filter (satisfiesAllActive (filters searchingTouch)) (papers searchingTouch))"
    and "papers (applyFilters quietEnv searchingTouch) = papers searchingTouch"
    by blast+
  moreover have "papers searchingTouch = [paperA, paperB]"
    by (simp add: searchingTouch_def newManager_def)
  moreover from applyFilters_conjunction [OF uploadedUndated_query, of quietEnv]
  have "mset (filteredPapers (applyFilters quietEnv uploadedUndated))
           = mset (filter (passesAllActive (filters uploadedUndated)) (papers uploadedUndated))"
    by blast
  then have "mset (filteredPapers (applyFilters quietEnv uploadedUndated)) = mset (papers uploadedUndated)"
    by (simp only: uploadedUndated_facts)
  ultimately show ?thesis
    by (simp add: searchingTouch_selection)
qed

section \<open>Migration\<close>

lemma migrateLoop_Nil: "migrateLoop env b [] = b"
  by (simp add: migrateLoop_def)

lemma migrateLoop_Cons: "migrateLoop env b (p # ps) = migrateLoop env (migrateStep env b p) ps"
  by (simp add: migrateLoop_def)

lemma migrateLoop_append: "migrateLoop env b (ps @ qs) = migrateLoop env (migrateLoop env b ps) qs"
  by (simp add: migrateLoop_def)

lemma outcomes_migrateStep:
  "outcomes (migrateStep env b p) = outcomes b @ [fst (migrateAttempt env (store b) (ids b) p)]"
  by (auto simp: migrateStep_def batchOk_def batchFailed_def split: prod.splits)

lemma counter_migrateStep:
  "counter (migrateStep env b p) =
     (if fst (migrateAttempt env (store b) (ids b) p) then Suc (counter b) else counter b)"
  by (auto simp: migrateStep_def batchOk_def batchFailed_def split: prod.splits)

lemma processed_migrateStep: "length (processed (migrateStep env b p)) = Suc (length (processed b))"
  by (auto simp: migrateStep_def batchOk_def batchFailed_def split: prod.splits)

lemma outcomes_migrateLoop:
  "\<exists>ys. outcomes (migrateLoop env b ps) = outcomes b @ ys \<and> length ys = length ps"
proof (induction ps arbitrary: b)
  case Nil
  then show ?case by (simp add: migrateLoop_Nil)
next
  case (Cons p ps)
  from Cons.IH [of "migrateStep env b p"] obtain ys where
    "outcomes (migrateLoop env (migrateStep env b p) ps) = outcomes (migrateStep env b p) @ ys"
    "length ys = length ps" by blast
  then show ?case
    by (simp add: migrateLoop_Cons outcomes_migrateStep)
qed

lemma length_outcomes_migrateLoop:
  "length (outcomes (migrateLoop env b ps)) = length (outcomes b) + length ps"
  using outcomes_migrateLoop [of env b ps] by auto

lemma length_processed_migrateLoop:
  "length (processed (migrateLoop env b ps)) = length (processed b) + length ps"
  by (induction ps arbitrary: b) (simp_all add: migrateLoop_Nil migrateLoop_Cons processed_migrateStep)

lemma counter_migrateLoop:
  "counter b = length (filter (\<lambda>ok. ok) (outcomes b)) \<Longrightarrow>
   counter (migrateLoop env b ps) = length (filter (\<lambda>ok. ok) (outcomes (migrateLoop env b ps)))"
proof (induction ps arbitrary: b)
  case Nil
  then show ?case by (simp add: migrateLoop_Nil)
next
  case (Cons p ps)
  have "counter (migrateStep env b p) = length (filter (\<lambda>ok. ok) (outcomes (migrateStep env b p)))"
    using Cons.prems by (simp add: counter_migrateStep outcomes_migrateStep)
  from Cons.IH [OF this] show ?case by (simp add: migrateLoop_Cons)
qed

lemma outcome_at:
  assumes "i < length ps" and "outcomes b = []"
  shows "outcomes (migrateLoop env b ps) ! i =
           fst (migrateAttempt env (store (migrateLoop env b (take i ps)))
                  (ids (migrateLoop env b (take i ps))) (ps ! i))"
proof -
  define bi where "bi = migrateLoop env b (take i ps)"
  have split: "ps = take i ps @ ps ! i # drop (Suc i) ps"
    using assms(1) by (simp add: id_take_nth_drop)
  have "migrateLoop env b ps = migrateLoop env (migrateStep env bi (ps ! i)) (drop (Suc i) ps)"
    unfolding bi_def
    by (subst split) (simp only: migrateLoop_append migrateLoop_Cons)
  moreover obtain ys where
    "outcomes (migrateLoop env (migrateStep env bi (ps ! i)) (drop (Suc i) ps))
       = outcomes (migrateStep env bi (ps ! i)) @ ys"
    using outcomes_migrateLoop by blast
  moreover have "length (outcomes bi) = i"
    using assms by (simp add: bi_def length_outcomes_migrateLoop)
  ultimately show ?thesis
    by (simp add: outcomes_migrateStep nth_append bi_def)
qed

lemma migrateToIndexedDB_run:
  assumes "storageInitialized s" and "papers s \<noteq> []"
  shows "localStorage (migrateToIndexedDB env s)
           = (if 0 < counter (migrateLoop env (startBatch s) (papers s)) then None else localStorage s)"
    and "papers (migrateToIndexedDB env s) = processed (migrateLoop env (startBatch s) (papers s))"
    and "db (migrateToIndexedDB env s) = store (migrateLoop env (startBatch s) (papers s))"
    and "console (migrateToIndexedDB env s)
           = console s @ logged (migrateLoop env (startBatch s) (papers s))"
  using assms by (simp_all add: migrateToIndexedDB_def Let_def showNotification_def)

text \<open>
  Claim C6: when the migration runs (record store ready, collection not empty), every
  paper gets its turn: the loop leaves one outcome for each paper, and the outcome at
  position \<open>i\<close> is that of the attempt on paper \<open>i\<close> in the store as the papers before it
  left it, whether those succeeded or failed. The success counter is the number of
  successful outcomes, and afterwards the \<open>localStorage\<close> payload is removed if the counter
  is positive and is what it was otherwise.
\<close>

theorem migrateToIndexedDB_best_effort:
  assumes "storageInitialized s" and "papers s \<noteq> []"
  shows "(let run = migrateLoop env (startBatch s) in
          length (outcomes (run (papers s))) = length (papers s) \<and>
          (\<forall>i < length (papers s).
             outcomes (run (papers s)) ! i =
               fst (migrateAttempt env (store (run (take i (papers s))))
                      (ids (run (take i (papers s)))) (papers s ! i))) \<and>
          counter (run (papers s)) = length (filter (\<lambda>ok. ok) (outcomes (run (papers s)))) \<and>
          length (papers (migrateToIndexedDB env s)) = length (papers s) \<and>
          localStorage (migrateToIndexedDB env s)
            = (if 0 < counter (run (papers s)) then None else localStorage s))"
proof -
  have start: "outcomes (startBatch s) = []" "counter (startBatch s) = 0"
    "processed (startBatch s) = []"
    by (simp_all add: startBatch_def)
  have "length (outcomes (migrateLoop env (startBatch s) (papers s))) = length (papers s)"
    by (simp add: length_outcomes_migrateLoop start)
  moreover have "\<forall>i < length (papers s).
             outcomes (migrateLoop env (startBatch s) (papers s)) ! i =
               fst (migrateAttempt env (store (migrateLoop env (startBatch s) (take i (papers s))))
                      (ids (migrateLoop env (startBatch s) (take i (papers s)))) (papers s ! i))"
    using outcome_at [OF _ start(1)] by blast
  moreover have "counter (migrateLoop env (startBatch s) (papers s))
        = length (filter (\<lambda>ok. ok) (outcomes (migrateLoop env (startBatch s) (papers s))))"
    by (rule counter_migrateLoop) (simp add: start)
  moreover have "length (papers (migrateToIndexedDB env s)) = length (papers s)"
    by (simp add: migrateToIndexedDB_run(2) [OF assms] length_processed_migrateLoop start)
  ultimately show ?thesis
    using migrateToIndexedDB_run(1) [OF assms, of env] by (simp add: Let_def)
qed

lemma loadedFromFallback_run:
  "outcomes (migrateLoop flakyEnv (startBatch loadedFromFallback) (papers loadedFromFallback))
     = [True, False, True]"
  "store (migrateLoop flakyEnv (startBatch loadedFromFallback) (papers loadedFromFallback))
     = [''Touch Input on Small Screens'', ''Gaze Typing'']"
  by code_simp+

lemma loadedOnlyBroken_run:
  "outcomes (migrateLoop flakyEnv (startBatch loadedOnlyBroken) (papers loadedOnlyBroken)) = [False]"
  by code_simp

theorem migrateToIndexedDB_best_effort_witness:
  "storageInitialized loadedFromFallback \<and> papers loadedFromFallback \<noteq> [] \<and>
   localStorage loadedFromFallback \<noteq> None \<and>
   localStorage (migrateToIndexedDB flakyEnv loadedFromFallback) = None \<and>
   db (migrateToIndexedDB flakyEnv loadedFromFallback)
     = [''Touch Input on Small Screens'', ''Gaze Typing''] \<and>
   localStorage (migrateToIndexedDB flakyEnv loadedOnlyBroken) = Some [paperB]"
proof -
  have a: "storageInitialized loadedFromFallback" "papers loadedFromFallback \<noteq> []"
    "localStorage loadedFromFallback \<noteq> None"
    by (simp_all add: loadedFromFallback_def newManager_def)
  have b: "storageInitialized loadedOnlyBroken" "papers loadedOnlyBroken \<noteq> []"
    "localStorage loadedOnlyBroken = Some [paperB]"
    by (simp_all add: loadedOnlyBroken_def newManager_def)
  from migrateToIndexedDB_best_effort [OF a(1,2), of flakyEnv]
  have "localStorage (migrateToIndexedDB flakyEnv loadedFromFallback) = None"
    by (simp add: Let_def loadedFromFallback_run)
  moreover from migrateToIndexedDB_best_effort [OF b(1,2), of flakyEnv]
  have "localStorage (migrateToIndexedDB flakyEnv loadedOnlyBroken) = Some [paperB]"
    by (simp add: Let_def loadedOnlyBroken_run b(3))
  moreover have "db (migrateToIndexedDB flakyEnv loadedFromFallback)
     = [''Touch Input on Small Screens'', ''Gaze Typing'']"
    by (simp add: migrateToIndexedDB_run(3) [OF a(1,2)] loadedFromFallback_run)
  ultimately show ?thesis using a by simp
qed

section \<open>Uploading\<close>










text \<open>
  Claim C8 against the code, for a release tagged \<open>v1\<close> with the assets \<open>p1.pdf\<close> (stored)
  and \<open>p2.pdf\<close> (failed): the file of paper \<open>p1\<close> receives an address with the tag
  \<open>latest\<close>, taken from the answer to the upload, where the claim has the tag \<open>v1\<close> of the
  release; the files without a successful upload keep their address.
\<close>

theorem deployToGitHubReleases_tag_of_upload:
  "deployedTag (deployToGitHubReleases releaseService someUploader someExport False 0) = Some ''v1'' \<and>
   deployedPdfUrls (deployToGitHubReleases releaseService someUploader someExport False 0) =
     [(''data/index.json'', None),
      (''data/papers/p1.json'', Some ''https://cdn.jsdelivr.net/gh/u/r@latest/p1.pdf''),
      (''data/papers/p2.json'', Some ''https://cdn.jsdelivr.net/gh/u/r@undefined/p2.pdf''),
      (''data/papers/p3.json'', Some ''https://cdn.jsdelivr.net/gh/u/r@undefined/p3.pdf'')]"
  by code_simp

section \<open>Ids of added papers\<close>

text \<open>
  Claim C2 against the code: the collection holds one paper with the id 2 (loaded from a
  static data set); a JSON file with title, authors and year is added. \<open>normalizepaperData\<close>
  gives the new paper the id \<open>papers.length + 1 = 2\<close>, \<open>addPaper\<close> keeps an id that is
  present, and the collection ends with two papers of id 2.
\<close>

theorem processJsonFile_repeats_id:
  "map paper_id (papers loadedFromStatic) = [Some (NumId 2)] \<and>
   fst (processJsonFile quietEnv jsonRecord ''auto'' loadedFromStatic) = Inr (Some (NumId 2)) \<and>
   map paper_id (papers (snd (processJsonFile quietEnv jsonRecord ''auto'' loadedFromStatic)))
     = [Some (NumId 2), Some (NumId 2)]"
  by code_simp

end
